theory Spec2Isabelle
  imports Complex_Main
begin

section \<open>Python values, dictionaries and exceptions\<close>

text \<open>
  The scripts under \<^verbatim>\<open>scripts/duoplus\<close> exchange plain Python dictionaries with
  string keys. A dictionary is a map from keys to values; a key that is absent is
  \<open>None\<close> of the map, a key that holds Python's \<^verbatim>\<open>None\<close> is \<open>Some VNone\<close>.
  An exception that leaves a function is the \<open>Inl\<close> of its result.
\<close>

datatype py_value = VNone | VBool bool | VInt int | VFloat real | VStr string

type_synonym dict = "string \<rightharpoonup> py_value"

datatype py_error = KeyError | IndexError | ValueError | CvError

definition getitem :: "dict \<Rightarrow> string \<Rightarrow> py_error + py_value" where
  "getitem d k = (case d k of None \<Rightarrow> Inl KeyError | Some v \<Rightarrow> Inr v)"

fun truthy :: "py_value \<Rightarrow> bool" where
  "truthy VNone = False"
| "truthy (VBool b) = b"
| "truthy (VInt n) = (n \<noteq> 0)"
| "truthy (VFloat r) = (r \<noteq> 0)"
| "truthy (VStr s) = (s \<noteq> [])"

section \<open>Images and the correlation surface\<close>

text \<open>
  \<^verbatim>\<open>cv2.imread\<close> yields an image or \<^verbatim>\<open>None\<close>. A file system maps a path to
  what \<^verbatim>\<open>cv2.imread\<close> makes of the bytes stored there: \<open>Some None\<close> is a file that
  exists and is no readable image, \<open>None\<close> is no file.
\<close>

record image =
  height :: nat
  width :: nat
  pixels :: "nat list list"

type_synonym filesystem = "string \<rightharpoonup> image option"

definition imread :: "filesystem \<Rightarrow> string \<Rightarrow> image option" where
  "imread fs path = (case fs path of None \<Rightarrow> None | Some content \<Rightarrow> content)"

text \<open>
  \<^verbatim>\<open>cv2.matchTemplate(screenshot, template, cv2.TM_CCOEFF_NORMED)\<close> belongs to OpenCV,
  not to the repository. The score it gives to one offset is the parameter \<open>corr\<close>
  (row \<open>y\<close>, column \<open>x\<close>). OpenCV takes the larger of the two images as the image:
  when the screenshot is smaller than the template in some dimension it swaps the two,
  and it raises when the screenshot is then larger in the other dimension. The surface
  has one entry for every offset at which the smaller image fits into the larger one.
\<close>

type_synonym correlation = "image \<Rightarrow> image \<Rightarrow> nat \<Rightarrow> nat \<Rightarrow> real"

definition matchTemplate :: "correlation \<Rightarrow> image \<Rightarrow> image \<Rightarrow> py_error + real list list" where
  "matchTemplate corr img templ =
     (let needswap = (height img < height templ \<or> width img < width templ) in
      if needswap \<and> \<not> (height img \<le> height templ \<and> width img \<le> width templ)
      then Inl CvError
      else
        (let big = (if needswap then templ else img);
             small = (if needswap then img else templ)
         in Inr (map (\<lambda>y. map (\<lambda>x. corr big small y x) [0..<width big - width small + 1])
                     [0..<height big - height small + 1])))"

text \<open>
  \<^verbatim>\<open>np.where(result >= thr)\<close> for a threshold that is a float32 already: the
  (row, column) indices in row-major order.
\<close>

definition np_where_ge :: "real list list \<Rightarrow> real \<Rightarrow> (nat \<times> nat) list" where
  "np_where_ge result thr =
     concat (map (\<lambda>y. map (\<lambda>x. (y, x)) (filter (\<lambda>x. thr \<le> result ! y ! x) [0..<length (result ! y)]))
                 [0..<length result])"

text \<open>The \<^verbatim>\<open>max_val\<close> component of \<^verbatim>\<open>cv2.minMaxLoc(result)\<close>.\<close>

definition minMaxLoc_max_val :: "real list list \<Rightarrow> py_error + real" where
  "minMaxLoc_max_val result =
     (case concat result of [] \<Rightarrow> Inl CvError | v # vs \<Rightarrow> Inr (fold max vs v))"

section \<open>The locator: \<^verbatim>\<open>scripts/duoplus/template_matching.py\<close>\<close>

definition THRESHOLD :: real where
  "THRESHOLD = 65 / 100"

text \<open>
  The surface is a float32 array, and numpy compares it with the Python float
  \<^verbatim>\<open>THRESHOLD\<close> in float32: the threshold is rounded to the nearest float32 first. The
  float32 numbers between 1/2 and 1 are the multiples of \<open>2 ^ -24\<close>, and the one nearest
  to 0.65 is 10905190 / 2 ^ 24 = 5452595 / 2 ^ 23, about 0.64999998. The scores
  themselves are float32 numbers, which \<^verbatim>\<open>float(...)\<close> turns into Python floats
  without change; they are reals here.
\<close>

definition float32_THRESHOLD :: real where
  "float32_THRESHOLD = 5452595 / 8388608"

type_synonym match = "int \<times> int \<times> real"

definition match_x :: "match \<Rightarrow> int" where
  "match_x m = fst m"

definition match_y :: "match \<Rightarrow> int" where
  "match_y m = fst (snd m)"

definition match_conf :: "match \<Rightarrow> real" where
  "match_conf m = snd (snd m)"

text \<open>
  \<^verbatim>\<open>for pt in zip(*locations[::-1])\<close>: every location becomes the centre of the
  template placed there, with the score read back from the surface.
\<close>

definition matches_of :: "image \<Rightarrow> real list list \<Rightarrow> (nat \<times> nat) list \<Rightarrow> match list" where
  "matches_of templ result locations =
     map (\<lambda>(py, px). (int px + int (width templ div 2),
                       int py + int (height templ div 2),
                       result ! py ! px)) locations"

text \<open>
  The deduplication loop: a match is appended to \<open>filtered\<close> unless a match already
  kept lies less than 50 px away vertically.
\<close>

fun dedup_loop :: "match list \<Rightarrow> match list \<Rightarrow> match list" where
  "dedup_loop [] filtered = filtered"
| "dedup_loop (m # ms) filtered =
     (let is_duplicate = list_ex (\<lambda>f. \<bar>match_y m - match_y f\<bar> < 50) filtered
      in if \<not> is_duplicate then dedup_loop ms (filtered @ [m]) else dedup_loop ms filtered)"

text \<open>\<^verbatim>\<open>sorted(matches, key=lambda x: x[1])\<close> is stable, as \<open>sort_key\<close> is.\<close>

definition filtered_of :: "match list \<Rightarrow> match list" where
  "filtered_of matches = dedup_loop (sort_key match_y matches) []"

text \<open>\<^verbatim>\<open>max(filtered, key=lambda x: x[2])\<close>: the first match of the largest score.\<close>

fun max_from :: "match \<Rightarrow> match list \<Rightarrow> match" where
  "max_from best [] = best"
| "max_from best (m # ms) = max_from (if match_conf best < match_conf m then m else best) ms"

definition py_max_conf :: "match list \<Rightarrow> py_error + match" where
  "py_max_conf ms = (case ms of [] \<Rightarrow> Inl ValueError | m # rest \<Rightarrow> Inr (max_from m rest))"

definition first_item :: "match list \<Rightarrow> py_error + match" where
  "first_item ms = (case ms of [] \<Rightarrow> Inl IndexError | m # rest \<Rightarrow> Inr m)"

definition load_error :: "string \<Rightarrow> dict" where
  "load_error e = [''success'' \<mapsto> VBool False, ''error'' \<mapsto> VStr e, ''x'' \<mapsto> VNone,
                   ''y'' \<mapsto> VNone, ''confidence'' \<mapsto> VInt 0, ''count'' \<mapsto> VInt 0]"

definition not_found :: "real \<Rightarrow> dict" where
  "not_found max_val = [''success'' \<mapsto> VBool False, ''error'' \<mapsto> VStr ''NOT_FOUND'', ''x'' \<mapsto> VNone,
                        ''y'' \<mapsto> VNone, ''confidence'' \<mapsto> VFloat max_val, ''count'' \<mapsto> VInt 0]"

definition found_at :: "match \<Rightarrow> nat \<Rightarrow> dict" where
  "found_at selected n = [''success'' \<mapsto> VBool True, ''x'' \<mapsto> VInt (match_x selected),
                          ''y'' \<mapsto> VInt (match_y selected),
                          ''confidence'' \<mapsto> VFloat (match_conf selected), ''count'' \<mapsto> VInt (int n)]"

definition find_button ::
  "correlation \<Rightarrow> filesystem \<Rightarrow> string \<Rightarrow> string \<Rightarrow> bool \<Rightarrow> py_error + dict" where
  "find_button corr fs screenshot_path template_path select_topmost =
     (case imread fs screenshot_path of
        None \<Rightarrow> Inr (load_error ''SCREENSHOT_ERROR'')
      | Some screenshot \<Rightarrow>
     (case imread fs template_path of
        None \<Rightarrow> Inr (load_error ''TEMPLATE_ERROR'')
      | Some templ \<Rightarrow>
     (case matchTemplate corr screenshot templ of
        Inl e \<Rightarrow> Inl e
      | Inr result \<Rightarrow>
     (let locations = np_where_ge result float32_THRESHOLD in
      if length locations = 0
      then (case minMaxLoc_max_val result of
              Inl e \<Rightarrow> Inl e
            | Inr max_val \<Rightarrow> Inr (not_found max_val))
      else
        (let filtered = filtered_of (matches_of templ result locations) in
         case (if select_topmost then first_item filtered else py_max_conf filtered) of
           Inl e \<Rightarrow> Inl e
         | Inr selected \<Rightarrow> Inr (found_at selected (length filtered)))))))"

text \<open>
  \<^verbatim>\<open>TEMPLATE_DIR\<close> is the directory of \<^verbatim>\<open>template_matching.py\<close>; it is written
  here as the path of that directory in the repository.
\<close>

definition TEMPLATES_PATH :: string where
  "TEMPLATES_PATH = ''scripts/duoplus/templates''"

definition path_join :: "string \<Rightarrow> string \<Rightarrow> string" where
  "path_join dir name = dir @ ''/'' @ name"

definition find_like_button :: "correlation \<Rightarrow> filesystem \<Rightarrow> string \<Rightarrow> py_error + dict" where
  "find_like_button corr fs screenshot_path =
     find_button corr fs screenshot_path (path_join TEMPLATES_PATH ''template_like_button.png'') True"

definition find_comment_button :: "correlation \<Rightarrow> filesystem \<Rightarrow> string \<Rightarrow> py_error + dict" where
  "find_comment_button corr fs screenshot_path =
     find_button corr fs screenshot_path (path_join TEMPLATES_PATH ''template_comment_button.png'') True"

definition find_retweet_button :: "correlation \<Rightarrow> filesystem \<Rightarrow> string \<Rightarrow> py_error + dict" where
  "find_retweet_button corr fs screenshot_path =
     find_button corr fs screenshot_path (path_join TEMPLATES_PATH ''template_retweet_button.png'') True"

definition find_repost_option :: "correlation \<Rightarrow> filesystem \<Rightarrow> string \<Rightarrow> py_error + dict" where
  "find_repost_option corr fs screenshot_path =
     find_button corr fs screenshot_path (path_join TEMPLATES_PATH ''template_repost_option.png'') False"

section \<open>The device client: \<^verbatim>\<open>scripts/duoplus/duoplus_client.py\<close>\<close>

text \<open>
  The remote phone and the vision service are outside the repository. Every call made
  to them, every \<^verbatim>\<open>time.sleep\<close> and every localization pass is recorded in a trace;
  what the remote side answers to a call is a function of the trace up to and
  including that call, so any behaviour of the remote side is some \<open>device\<close>.
  \<open>take_screenshot_r\<close> yields \<open>None\<close> when the capture fails and otherwise the
  content that is written to the file.
\<close>

datatype event =
    OpenUrl string
  | TakeScreenshot string
  | Tap py_value py_value
  | ScrollDown
  | InputText string
  | Sleep nat
  | Locate string
  | GenerateComment string string

record device =
  open_url_r :: "event list \<Rightarrow> bool"
  take_screenshot_r :: "event list \<Rightarrow> image option option"
  tap_r :: "event list \<Rightarrow> bool"
  scroll_down_r :: "event list \<Rightarrow> bool"
  input_text_r :: "event list \<Rightarrow> bool"

record world =
  trace :: "event list"
  files :: filesystem

definition open_url :: "device \<Rightarrow> string \<Rightarrow> world \<Rightarrow> bool \<times> world" where
  "open_url dev url w =
     (let t = trace w @ [OpenUrl url] in (open_url_r dev t, w\<lparr>trace := t\<rparr>))"

definition take_screenshot :: "device \<Rightarrow> string \<Rightarrow> world \<Rightarrow> bool \<times> world" where
  "take_screenshot dev save_path w =
     (let t = trace w @ [TakeScreenshot save_path] in
      case take_screenshot_r dev t of
        None \<Rightarrow> (False, w\<lparr>trace := t\<rparr>)
      | Some content \<Rightarrow> (True, w\<lparr>trace := t, files := (files w)(save_path \<mapsto> content)\<rparr>))"

definition tap :: "device \<Rightarrow> py_value \<Rightarrow> py_value \<Rightarrow> world \<Rightarrow> bool \<times> world" where
  "tap dev px py w =
     (let t = trace w @ [Tap px py] in (tap_r dev t, w\<lparr>trace := t\<rparr>))"

definition scroll_down :: "device \<Rightarrow> world \<Rightarrow> bool \<times> world" where
  "scroll_down dev w =
     (let t = trace w @ [ScrollDown] in (scroll_down_r dev t, w\<lparr>trace := t\<rparr>))"

definition input_text :: "device \<Rightarrow> string \<Rightarrow> world \<Rightarrow> bool \<times> world" where
  "input_text dev txt w =
     (let t = trace w @ [InputText txt] in (input_text_r dev t, w\<lparr>trace := t\<rparr>))"

definition sleep :: "nat \<Rightarrow> world \<Rightarrow> world" where
  "sleep n w = w\<lparr>trace := trace w @ [Sleep n]\<rparr>"

text \<open>
  \<^verbatim>\<open>try: os.remove(a); os.remove(b) except: pass\<close>: the first file that is missing
  ends the clean-up.
\<close>

fun cleanup :: "string list \<Rightarrow> world \<Rightarrow> world" where
  "cleanup [] w = w"
| "cleanup (p # ps) w =
     (if files w p = None then w else cleanup ps (w\<lparr>files := (files w)(p := None)\<rparr>))"

section \<open>The retry loop of the like, comment and retweet scripts\<close>

definition MAX_RETRY :: nat where
  "MAX_RETRY = 3"

definition WAIT_AFTER_OPEN :: nat where
  "WAIT_AFTER_OPEN = 10"

definition WAIT_AFTER_SCROLL :: nat where
  "WAIT_AFTER_SCROLL = 2"

text \<open>
  \<^verbatim>\<open>like_action.py\<close>, \<^verbatim>\<open>ai_comment_action.py\<close> and \<^verbatim>\<open>retweet_action.py\<close> each
  contain the same \<^verbatim>\<open>for i in range(MAX_RETRY)\<close> loop; the copies differ in the
  screenshot path and in the \<^verbatim>\<open>find_*_button\<close> function only. The loop variables are
  \<open>(found, x, y, confidence, retry_count)\<close>. The first equation is the end of the
  range; \<^verbatim>\<open>break\<close> is the branch that does not recur.
\<close>

type_synonym loop_vars = "bool \<times> py_value \<times> py_value \<times> py_value \<times> int"

fun retry_loop ::
  "device \<Rightarrow> (filesystem \<Rightarrow> string \<Rightarrow> py_error + dict) \<Rightarrow> string \<Rightarrow> nat list \<Rightarrow> loop_vars \<Rightarrow> world
     \<Rightarrow> (py_error + loop_vars) \<times> world" where
  "retry_loop dev finder path [] vars w = (Inr vars, w)"
| "retry_loop dev finder path (i # rest) (found, px, py, confidence, retry_count) w =
     (let retry_count = int i + 1;
          (ok, w1) = take_screenshot dev path w
      in if \<not> ok then retry_loop dev finder path rest (found, px, py, confidence, retry_count) w1
         else
           (let w2 = w1\<lparr>trace := trace w1 @ [Locate path]\<rparr> in
            case finder (files w2) path of
              Inl e \<Rightarrow> (Inl e, w2)
            | Inr result \<Rightarrow>
           (case getitem result ''success'' of
              Inl e \<Rightarrow> (Inl e, w2)
            | Inr s \<Rightarrow>
              if truthy s then
                (case getitem result ''x'' of
                   Inl e \<Rightarrow> (Inl e, w2)
                 | Inr rx \<Rightarrow>
                (case getitem result ''y'' of
                   Inl e \<Rightarrow> (Inl e, w2)
                 | Inr ry \<Rightarrow>
                (case getitem result ''confidence'' of
                   Inl e \<Rightarrow> (Inl e, w2)
                 | Inr rc \<Rightarrow> (Inr (True, rx, ry, rc, retry_count), w2))))
              else if i < MAX_RETRY - 1 then
                (let (scrolled, w3) = scroll_down dev w2;
                     w4 = sleep WAIT_AFTER_SCROLL w3
                 in retry_loop dev finder path rest (found, px, py, confidence, retry_count) w4)
              else retry_loop dev finder path rest (found, px, py, confidence, retry_count) w2)))"

definition initial_vars :: loop_vars where
  "initial_vars = (False, VNone, VNone, VInt 0, 0)"

definition start :: "filesystem \<Rightarrow> world" where
  "start fs = \<lparr>trace = [], files = fs\<rparr>"

section \<open>\<^verbatim>\<open>scripts/duoplus/like_action.py\<close>\<close>

definition like_TEMP_SCREENSHOT :: string where
  "like_TEMP_SCREENSHOT = ''/tmp/screenshot.png''"

definition like_TEMP_SCREENSHOT_AFTER :: string where
  "like_TEMP_SCREENSHOT_AFTER = ''/tmp/screenshot_after.png''"

definition execute_like ::
  "correlation \<Rightarrow> device \<Rightarrow> filesystem \<Rightarrow> string \<Rightarrow> (py_error + dict) \<times> world" where
  "execute_like corr dev fs post_url =
     (let (opened, w1) = open_url dev post_url (start fs) in
      if \<not> opened
      then (Inr [''success'' \<mapsto> VBool False, ''error'' \<mapsto> VStr ''FAILED_TO_OPEN_URL''], w1)
      else
        (let w2 = sleep WAIT_AFTER_OPEN w1 in
         case retry_loop dev (find_like_button corr) like_TEMP_SCREENSHOT [0..<MAX_RETRY]
                initial_vars w2 of
           (Inl e, w3) \<Rightarrow> (Inl e, w3)
         | (Inr (found, px, py, confidence, retry_count), w3) \<Rightarrow>
             if \<not> found
             then (Inr [''success'' \<mapsto> VBool False, ''error'' \<mapsto> VStr ''LIKE_BUTTON_NOT_FOUND'',
                        ''retry_count'' \<mapsto> VInt retry_count, ''confidence'' \<mapsto> confidence], w3)
             else
               (let (tapped, w4) = tap dev px py w3 in
                if \<not> tapped
                then (Inr [''success'' \<mapsto> VBool False, ''error'' \<mapsto> VStr ''TAP_FAILED'',
                           ''x'' \<mapsto> px, ''y'' \<mapsto> py, ''confidence'' \<mapsto> confidence,
                           ''retry_count'' \<mapsto> VInt retry_count], w4)
                else
                  (let w5 = sleep 1 w4;
                       (shot, w6) = take_screenshot dev like_TEMP_SCREENSHOT_AFTER w5;
                       w7 = cleanup [like_TEMP_SCREENSHOT, like_TEMP_SCREENSHOT_AFTER] w6
                   in (Inr [''success'' \<mapsto> VBool True, ''x'' \<mapsto> px, ''y'' \<mapsto> py,
                            ''confidence'' \<mapsto> confidence,
                            ''retry_count'' \<mapsto> VInt retry_count], w7)))))"

section \<open>\<^verbatim>\<open>scripts/duoplus/follow_action.py\<close>\<close>

definition follow_WAIT_AFTER_OPEN :: nat where
  "follow_WAIT_AFTER_OPEN = 8"

definition follow_TEMP_SCREENSHOT :: string where
  "follow_TEMP_SCREENSHOT = ''/tmp/screenshot_follow.png''"

definition follow_TEMP_SCREENSHOT_AFTER :: string where
  "follow_TEMP_SCREENSHOT_AFTER = ''/tmp/screenshot_follow_after.png''"

definition FOLLOW_BUTTON_X :: int where
  "FOLLOW_BUTTON_X = 990"

definition FOLLOW_BUTTON_Y :: int where
  "FOLLOW_BUTTON_Y = 900"

definition lstrip_at :: "string \<Rightarrow> string" where
  "lstrip_at s = dropWhile (\<lambda>c. c = CHR ''@'') s"

definition execute_follow :: "device \<Rightarrow> filesystem \<Rightarrow> string \<Rightarrow> (py_error + dict) \<times> world" where
  "execute_follow dev fs target_username =
     (let username = lstrip_at target_username;
          profile_url = ''https://x.com/'' @ username;
          (opened, w1) = open_url dev profile_url (start fs)
      in if \<not> opened
         then (Inr [''success'' \<mapsto> VBool False, ''error'' \<mapsto> VStr ''FAILED_TO_OPEN_URL''], w1)
         else
           (let w2 = sleep follow_WAIT_AFTER_OPEN w1;
                px = VInt FOLLOW_BUTTON_X;
                py = VInt FOLLOW_BUTTON_Y;
                confidence = VInt 0;
                retry_count = VInt 1;
                (tapped, w3) = tap dev px py w2
            in if \<not> tapped
               then (Inr [''success'' \<mapsto> VBool False, ''error'' \<mapsto> VStr ''TAP_FOLLOW_BUTTON_FAILED'',
                          ''x'' \<mapsto> px, ''y'' \<mapsto> py, ''confidence'' \<mapsto> confidence,
                          ''retry_count'' \<mapsto> retry_count], w3)
               else
                 (let w4 = sleep 1 w3;
                      (shot, w5) = take_screenshot dev follow_TEMP_SCREENSHOT_AFTER w4;
                      w6 = cleanup [follow_TEMP_SCREENSHOT, follow_TEMP_SCREENSHOT_AFTER] w5
                  in (Inr [''success'' \<mapsto> VBool True, ''x'' \<mapsto> px, ''y'' \<mapsto> py,
                           ''confidence'' \<mapsto> confidence, ''retry_count'' \<mapsto> retry_count,
                           ''target_username'' \<mapsto> VStr username], w6))))"

section \<open>\<^verbatim>\<open>scripts/duoplus/retweet_action.py\<close>\<close>

definition WAIT_AFTER_RETWEET_BUTTON :: nat where
  "WAIT_AFTER_RETWEET_BUTTON = 2"

definition retweet_TEMP_SCREENSHOT :: string where
  "retweet_TEMP_SCREENSHOT = ''/tmp/screenshot_retweet.png''"

definition TEMP_SCREENSHOT_MENU :: string where
  "TEMP_SCREENSHOT_MENU = ''/tmp/screenshot_retweet_menu.png''"

definition retweet_TEMP_SCREENSHOT_AFTER :: string where
  "retweet_TEMP_SCREENSHOT_AFTER = ''/tmp/screenshot_retweet_after.png''"

definition REPOST_OPTION_X :: int where
  "REPOST_OPTION_X = 230"

definition REPOST_OPTION_Y :: int where
  "REPOST_OPTION_Y = 1440"

definition execute_retweet ::
  "correlation \<Rightarrow> device \<Rightarrow> filesystem \<Rightarrow> string \<Rightarrow> (py_error + dict) \<times> world" where
  "execute_retweet corr dev fs post_url =
     (let (opened, w1) = open_url dev post_url (start fs) in
      if \<not> opened
      then (Inr [''success'' \<mapsto> VBool False, ''error'' \<mapsto> VStr ''FAILED_TO_OPEN_URL''], w1)
      else
        (let w2 = sleep WAIT_AFTER_OPEN w1 in
         case retry_loop dev (find_retweet_button corr) retweet_TEMP_SCREENSHOT [0..<MAX_RETRY]
                initial_vars w2 of
           (Inl e, w3) \<Rightarrow> (Inl e, w3)
         | (Inr (found, px, py, confidence, retry_count), w3) \<Rightarrow>
             if \<not> found
             then (Inr [''success'' \<mapsto> VBool False, ''error'' \<mapsto> VStr ''RETWEET_BUTTON_NOT_FOUND'',
                        ''retry_count'' \<mapsto> VInt retry_count, ''confidence'' \<mapsto> confidence,
                        ''debug_screenshot'' \<mapsto> VStr retweet_TEMP_SCREENSHOT], w3)
             else
               (let (tapped, w4) = tap dev px py w3 in
                if \<not> tapped
                then (Inr [''success'' \<mapsto> VBool False, ''error'' \<mapsto> VStr ''TAP_RETWEET_BUTTON_FAILED'',
                           ''x'' \<mapsto> px, ''y'' \<mapsto> py, ''confidence'' \<mapsto> confidence,
                           ''retry_count'' \<mapsto> VInt retry_count], w4)
                else
                  (let w5 = sleep WAIT_AFTER_RETWEET_BUTTON w4;
                       (shot, w6) = take_screenshot dev TEMP_SCREENSHOT_MENU w5
                   in if \<not> shot
                      then (Inr [''success'' \<mapsto> VBool False, ''error'' \<mapsto> VStr ''SCREENSHOT_MENU_FAILED'',
                                 ''x'' \<mapsto> px, ''y'' \<mapsto> py, ''confidence'' \<mapsto> confidence,
                                 ''retry_count'' \<mapsto> VInt retry_count], w6)
                      else
                        (let w7 = w6\<lparr>trace := trace w6 @ [Locate TEMP_SCREENSHOT_MENU]\<rparr> in
                         case find_repost_option corr (files w7) TEMP_SCREENSHOT_MENU of
                           Inl e \<Rightarrow> (Inl e, w7)
                         | Inr repost_result \<Rightarrow>
                        (case getitem repost_result ''success'' of
                           Inl e \<Rightarrow> (Inl e, w7)
                         | Inr s \<Rightarrow>
                        (case (if truthy s
                               then (case getitem repost_result ''x'' of
                                       Inl e \<Rightarrow> Inl e
                                     | Inr rx \<Rightarrow>
                                    (case getitem repost_result ''y'' of
                                       Inl e \<Rightarrow> Inl e
                                     | Inr ry \<Rightarrow> Inr (rx, ry)))
                               else Inr (VInt REPOST_OPTION_X, VInt REPOST_OPTION_Y)) of
                           Inl e \<Rightarrow> (Inl e, w7)
                         | Inr (repost_x, repost_y) \<Rightarrow>
                        (let (tapped2, w8) = tap dev repost_x repost_y w7 in
                         if \<not> tapped2
                         then (Inr [''success'' \<mapsto> VBool False,
                                    ''error'' \<mapsto> VStr ''TAP_REPOST_OPTION_FAILED'',
                                    ''x'' \<mapsto> px, ''y'' \<mapsto> py, ''confidence'' \<mapsto> confidence,
                                    ''retry_count'' \<mapsto> VInt retry_count], w8)
                         else
                           (let w9 = sleep 1 w8;
                                (shot2, w10) = take_screenshot dev retweet_TEMP_SCREENSHOT_AFTER w9;
                                w11 = cleanup [retweet_TEMP_SCREENSHOT, TEMP_SCREENSHOT_MENU,
                                               retweet_TEMP_SCREENSHOT_AFTER] w10
                            in (Inr [''success'' \<mapsto> VBool True, ''x'' \<mapsto> px, ''y'' \<mapsto> py,
                                     ''confidence'' \<mapsto> confidence,
                                     ''retry_count'' \<mapsto> VInt retry_count], w11))))))))))"

section \<open>\<^verbatim>\<open>scripts/duoplus/ai_comment_action.py\<close>\<close>

definition WAIT_AFTER_COMMENT_BUTTON :: nat where
  "WAIT_AFTER_COMMENT_BUTTON = 3"

definition POST_BUTTON_X :: int where
  "POST_BUTTON_X = 980"

definition POST_BUTTON_Y :: int where
  "POST_BUTTON_Y = 350"

definition comment_TEMP_SCREENSHOT :: string where
  "comment_TEMP_SCREENSHOT = ''/tmp/screenshot.png''"

text \<open>
  \<^verbatim>\<open>generate_ai_comment\<close> sends the screenshot to the vision service and returns the
  comment, or \<^verbatim>\<open>None\<close> when the request fails. The answer of the service is the
  parameter \<open>vision\<close>, a function of the trace like the answers of the device.
\<close>

definition generate_ai_comment ::
  "(event list \<Rightarrow> string option) \<Rightarrow> string \<Rightarrow> string \<Rightarrow> world \<Rightarrow> string option \<times> world" where
  "generate_ai_comment vision screenshot_path persona w =
     (let t = trace w @ [GenerateComment screenshot_path persona] in (vision t, w\<lparr>trace := t\<rparr>))"

text \<open>\<^verbatim>\<open>not comment\<close> holds of \<^verbatim>\<open>None\<close> and of the empty string.\<close>

definition no_text :: "string option \<Rightarrow> bool" where
  "no_text c = (case c of None \<Rightarrow> True | Some s \<Rightarrow> s = [])"

definition comment_value :: "string option \<Rightarrow> py_value" where
  "comment_value c = (case c of None \<Rightarrow> VNone | Some s \<Rightarrow> VStr s)"

definition comment_text :: "string option \<Rightarrow> string" where
  "comment_text c = (case c of None \<Rightarrow> [] | Some s \<Rightarrow> s)"

definition execute_ai_comment ::
  "correlation \<Rightarrow> device \<Rightarrow> (event list \<Rightarrow> string option) \<Rightarrow> filesystem \<Rightarrow> string \<Rightarrow> string
     \<Rightarrow> (py_error + dict) \<times> world" where
  "execute_ai_comment corr dev vision fs post_url persona =
     (let (opened, w1) = open_url dev post_url (start fs) in
      if \<not> opened
      then (Inr [''success'' \<mapsto> VBool False, ''error'' \<mapsto> VStr ''FAILED_TO_OPEN_URL''], w1)
      else
        (let w2 = sleep WAIT_AFTER_OPEN w1;
             (shot, w3) = take_screenshot dev comment_TEMP_SCREENSHOT w2
         in if \<not> shot
            then (Inr [''success'' \<mapsto> VBool False, ''error'' \<mapsto> VStr ''SCREENSHOT_FAILED''], w3)
            else
              (let (comment, w4) = generate_ai_comment vision comment_TEMP_SCREENSHOT persona w3 in
               if no_text comment
               then (Inr [''success'' \<mapsto> VBool False,
                          ''error'' \<mapsto> VStr ''COMMENT_GENERATION_FAILED''], w4)
               else
                 (case retry_loop dev (find_comment_button corr) comment_TEMP_SCREENSHOT
                         [0..<MAX_RETRY] initial_vars w4 of
                    (Inl e, w5) \<Rightarrow> (Inl e, w5)
                  | (Inr (found, px, py, confidence, retry_count), w5) \<Rightarrow>
                      if \<not> found
                      then (Inr [''success'' \<mapsto> VBool False,
                                 ''error'' \<mapsto> VStr ''COMMENT_BUTTON_NOT_FOUND'',
                                 ''comment'' \<mapsto> comment_value comment,
                                 ''retry_count'' \<mapsto> VInt retry_count,
                                 ''confidence'' \<mapsto> confidence], w5)
                      else
                        (let (tapped, w6) = tap dev px py w5 in
                         if \<not> tapped
                         then (Inr [''success'' \<mapsto> VBool False, ''error'' \<mapsto> VStr ''TAP_FAILED'',
                                    ''comment'' \<mapsto> comment_value comment,
                                    ''x'' \<mapsto> px, ''y'' \<mapsto> py], w6)
                         else
                           (let w7 = sleep WAIT_AFTER_COMMENT_BUTTON w6;
                                (typed, w8) = input_text dev (comment_text comment) w7
                            in if \<not> typed
                               then (Inr [''success'' \<mapsto> VBool False, ''error'' \<mapsto> VStr ''INPUT_FAILED'',
                                          ''comment'' \<mapsto> comment_value comment,
                                          ''x'' \<mapsto> px, ''y'' \<mapsto> py], w8)
                               else
                                 (let w9 = sleep 1 w8;
                                      (posted, w10) = tap dev (VInt POST_BUTTON_X) (VInt POST_BUTTON_Y) w9
                                  in if \<not> posted
                                     then (Inr [''success'' \<mapsto> VBool False,
                                                ''error'' \<mapsto> VStr ''POST_TAP_FAILED'',
                                                ''comment'' \<mapsto> comment_value comment,
                                                ''x'' \<mapsto> px, ''y'' \<mapsto> py], w10)
                                     else
                                       (let w11 = cleanup [comment_TEMP_SCREENSHOT] w10
                                        in (Inr [''success'' \<mapsto> VBool True,
                                                 ''comment'' \<mapsto> comment_value comment,
                                                 ''x'' \<mapsto> px, ''y'' \<mapsto> py,
                                                 ''confidence'' \<mapsto> confidence,
                                                 ''retry_count'' \<mapsto> VInt retry_count], w11)))))))))"

section \<open>Concrete inputs\<close>

text \<open>
  Small inputs on which the definitions above are evaluated: small images, three
  score functions (the third scores the float32 threshold everywhere), file systems
  that hold the templates, one with a template that is wider and lower than the
  screenshot and one that is larger both ways, and a list of raw matches.
  \<open>far_apart\<close> is the relation that the deduplication loop maintains.
\<close>

definition far_apart :: "match \<Rightarrow> match \<Rightarrow> bool" where
  "far_apart a b = (50 \<le> \<bar>match_y a - match_y b\<bar>)"

definition raw_matches :: "match list" where
  "raw_matches = [(540, 910, 7 / 10), (100, 100, 9 / 10), (300, 110, 8 / 10)]"

definition move_right :: "match \<Rightarrow> match" where
  "move_right m = (match_x m + 400, match_y m, match_conf m)"

definition button_img :: image where
  "button_img = \<lparr>height = 2, width = 2, pixels = [[1, 1], [1, 1]]\<rparr>"

definition option_img :: image where
  "option_img = \<lparr>height = 2, width = 2, pixels = [[2, 2], [2, 2]]\<rparr>"

definition feed_img :: image where
  "feed_img = \<lparr>height = 2, width = 2, pixels = [[1, 1], [1, 1]]\<rparr>"

definition blank_img :: image where
  "blank_img = \<lparr>height = 2, width = 2, pixels = [[0, 0], [0, 0]]\<rparr>"

definition menu_img :: image where
  "menu_img = \<lparr>height = 3, width = 4, pixels = [[0, 0, 0, 0], [0, 0, 2, 2], [0, 0, 2, 2]]\<rparr>"

definition window :: "image \<Rightarrow> nat \<Rightarrow> nat \<Rightarrow> nat \<Rightarrow> nat \<Rightarrow> nat list list" where
  "window img y x h w = map (\<lambda>row. take w (drop x row)) (take h (drop y (pixels img)))"

definition corr0 :: correlation where
  "corr0 img templ y x =
     (if window img y x (height templ) (width templ) = pixels templ then 9 / 10 else 6 / 10)"

definition corr_anti :: correlation where
  "corr_anti img templ y x = (if pixels img = pixels templ then 1 else - 1 / 2)"

definition corr_edge :: correlation where
  "corr_edge img templ y x = 5452595 / 8388608"

definition wide_img :: image where
  "wide_img = \<lparr>height = 1, width = 3, pixels = [[1, 1, 1]]\<rparr>"

definition fs_odd :: filesystem where
  "fs_odd = [''/tmp/screenshot.png'' \<mapsto> Some feed_img, ''wide.png'' \<mapsto> Some wide_img,
             ''large.png'' \<mapsto> Some menu_img]"

definition fs0 :: filesystem where
  "fs0 = [path_join TEMPLATES_PATH ''template_like_button.png'' \<mapsto> Some button_img,
          path_join TEMPLATES_PATH ''template_comment_button.png'' \<mapsto> Some button_img,
          path_join TEMPLATES_PATH ''template_retweet_button.png'' \<mapsto> Some button_img,
          path_join TEMPLATES_PATH ''template_repost_option.png'' \<mapsto> Some option_img]"

definition like_template :: string where
  "like_template = path_join TEMPLATES_PATH ''template_like_button.png''"

definition fs_feed :: filesystem where
  "fs_feed = fs0(''/tmp/screenshot.png'' \<mapsto> Some feed_img)"

definition fs_blank :: filesystem where
  "fs_blank = fs0(''/tmp/screenshot.png'' \<mapsto> Some blank_img)"


text \<open>
  Remote sides: one on which every call succeeds and every capture shows the button,
  one that refuses to open the URL, one whose captures are blank, one that cannot
  capture at all, one that cannot tap, one whose first capture fails, one that cannot
  capture the repost menu, one whose menu capture shows the repost option, and a
  vision service that answers nothing. \<open>locate_result\<close> describes the three kinds
  of dictionary that \<open>find_button\<close> returns.
\<close>

definition dev_ok :: device where
  "dev_ok = \<lparr>open_url_r = (\<lambda>t. True), take_screenshot_r = (\<lambda>t. Some (Some feed_img)),
             tap_r = (\<lambda>t. True), scroll_down_r = (\<lambda>t. True), input_text_r = (\<lambda>t. True)\<rparr>"

definition dev_closed :: device where
  "dev_closed = dev_ok\<lparr>open_url_r := (\<lambda>t. False)\<rparr>"

definition dev_blank :: device where
  "dev_blank = dev_ok\<lparr>take_screenshot_r := (\<lambda>t. Some (Some blank_img))\<rparr>"

definition dev_dark :: device where
  "dev_dark = dev_ok\<lparr>take_screenshot_r := (\<lambda>t. None)\<rparr>"

definition dev_no_tap :: device where
  "dev_no_tap = dev_ok\<lparr>tap_r := (\<lambda>t. False)\<rparr>"

definition dev_flaky :: device where
  "dev_flaky = dev_ok\<lparr>take_screenshot_r := (\<lambda>t. if length t = 3 then None else Some (Some feed_img))\<rparr>"

definition dev_no_menu :: device where
  "dev_no_menu = dev_ok\<lparr>take_screenshot_r :=
     (\<lambda>t. if last t = TakeScreenshot ''/tmp/screenshot_retweet_menu.png'' then None
          else Some (Some feed_img))\<rparr>"

definition dev_menu :: device where
  "dev_menu = dev_ok\<lparr>take_screenshot_r :=
     (\<lambda>t. if last t = TakeScreenshot ''/tmp/screenshot_retweet_menu.png'' then Some (Some menu_img)
          else Some (Some feed_img))\<rparr>"

definition vision_none :: "event list \<Rightarrow> string option" where
  "vision_none t = None"

definition locate_result :: "dict \<Rightarrow> bool" where
  "locate_result d =
     ((\<exists>e. d = load_error e) \<or> (\<exists>c. d = not_found c \<and> c < float32_THRESHOLD)
      \<or> (\<exists>m n. d = found_at m n \<and> float32_THRESHOLD \<le> match_conf m))"

definition post :: string where
  "post = ''https://x.com/a/status/1''"


section \<open>Properties of the locator\<close>

subsection \<open>The deduplication loop\<close>

lemma dedup_loop_far:
  "sorted_wrt far_apart filtered \<Longrightarrow> sorted_wrt far_apart (dedup_loop ms filtered)"
proof (induction ms arbitrary: filtered)
  case Nil
  then show ?case by simp
next
  case (Cons m ms)
  show ?case
  proof (cases "list_ex (\<lambda>f. \<bar>match_y m - match_y f\<bar> < 50) filtered")
    case True
    then show ?thesis using Cons by simp
  next
    case False
    then have "\<forall>f\<in>set filtered. far_apart f m"
      by (auto simp: list_ex_iff far_apart_def abs_minus_commute)
    then have "sorted_wrt far_apart (filtered @ [m])"
      using Cons.prems by (simp add: sorted_wrt_append)
    then show ?thesis using False Cons.IH by simp
  qed
qed

lemma dedup_loop_set: "set (dedup_loop ms filtered) \<subseteq> set ms \<union> set filtered"
proof (induction ms arbitrary: filtered)
  case Nil
  then show ?case by simp
next
  case (Cons m ms)
  show ?case
  proof (cases "list_ex (\<lambda>f. \<bar>match_y m - match_y f\<bar> < 50) filtered")
    case True
    then show ?thesis using Cons.IH [of filtered] by auto
  next
    case False
    then show ?thesis using Cons.IH [of "filtered @ [m]"] by auto
  qed
qed

lemma dedup_loop_keeps: "set filtered \<subseteq> set (dedup_loop ms filtered)"
proof (induction ms arbitrary: filtered)
  case Nil
  then show ?case by simp
next
  case (Cons m ms)
  show ?case
  proof (cases "list_ex (\<lambda>f. \<bar>match_y m - match_y f\<bar> < 50) filtered")
    case True
    then show ?thesis using Cons.IH [of filtered] by auto
  next
    case False
    then show ?thesis using Cons.IH [of "filtered @ [m]"] by auto
  qed
qed

lemma dedup_loop_nonempty: "ms \<noteq> [] \<or> filtered \<noteq> [] \<Longrightarrow> dedup_loop ms filtered \<noteq> []"
proof (cases ms)
  case Nil
  then show "ms \<noteq> [] \<or> filtered \<noteq> [] \<Longrightarrow> dedup_loop ms filtered \<noteq> []" by simp
next
  case (Cons m rest)
  assume "ms \<noteq> [] \<or> filtered \<noteq> []"
  show "dedup_loop ms filtered \<noteq> []"
  proof (cases "list_ex (\<lambda>f. \<bar>match_y m - match_y f\<bar> < 50) filtered")
    case True
    then have "filtered \<noteq> []" by auto
    then show ?thesis using dedup_loop_keeps [of filtered ms] by auto
  next
    case False
    then have "dedup_loop ms filtered = dedup_loop rest (filtered @ [m])"
      using Cons by simp
    then show ?thesis using dedup_loop_keeps [of "filtered @ [m]" rest] by auto
  qed
qed

lemma dedup_loop_map:
  assumes "\<And>m. match_y (g m) = match_y m"
  shows "dedup_loop (map g ms) (map g filtered) = map g (dedup_loop ms filtered)"
proof (induction ms arbitrary: filtered)
  case Nil
  then show ?case by simp
next
  case (Cons m ms)
  have ex: "list_ex (\<lambda>f. \<bar>match_y (g m) - match_y f\<bar> < 50) (map g filtered)
            = list_ex (\<lambda>f. \<bar>match_y m - match_y f\<bar> < 50) filtered"
    by (simp add: list_ex_iff assms)
  show ?case
    using Cons.IH [of "filtered @ [m]"] Cons.IH [of filtered] by (simp add: ex)
qed

lemma insort_key_map:
  assumes "\<And>m. match_y (g m) = match_y m"
  shows "insort_key match_y (g a) (map g xs) = map g (insort_key match_y a xs)"
  by (induction xs) (simp_all add: assms)

lemma sort_key_map_y:
  assumes "\<And>m. match_y (g m) = match_y m"
  shows "sort_key match_y (map g xs) = map g (sort_key match_y xs)"
  by (induction xs) (simp_all add: insort_key_map [OF assms])

text \<open>
  Claim C7. Whatever the raw matches are, no two entries of the deduplicated list
  have vertical centres less than 50 px apart; and the horizontal coordinate plays no
  role: changing the matches in any way that keeps every vertical centre changes the
  deduplicated list in the same way, entry by entry.
\<close>

theorem C7_dedup:
  "(\<forall>i < length (filtered_of matches). \<forall>j < length (filtered_of matches).
      i \<noteq> j \<longrightarrow> 50 \<le> \<bar>match_y (filtered_of matches ! i) - match_y (filtered_of matches ! j)\<bar>)
   \<and> (\<forall>g. (\<forall>m. match_y (g m) = match_y m) \<longrightarrow>
          filtered_of (map g matches) = map g (filtered_of matches))"
proof (intro conjI allI impI)
  fix i j
  assume i: "i < length (filtered_of matches)" and j: "j < length (filtered_of matches)" and ne: "i \<noteq> j"
  have sw: "sorted_wrt far_apart (filtered_of matches)"
    unfolding filtered_of_def by (rule dedup_loop_far) simp
  show "50 \<le> \<bar>match_y (filtered_of matches ! i) - match_y (filtered_of matches ! j)\<bar>"
  proof (cases "i < j")
    case True
    then show ?thesis using sw j by (auto simp: sorted_wrt_iff_nth_less far_apart_def)
  next
    case False
    then have "j < i" using ne by simp
    then have "far_apart (filtered_of matches ! j) (filtered_of matches ! i)"
      using sw i by (auto simp: sorted_wrt_iff_nth_less)
    then show ?thesis by (simp add: far_apart_def abs_minus_commute)
  qed
next
  fix g :: "match \<Rightarrow> match"
  assume g: "\<forall>m. match_y (g m) = match_y m"
  have "dedup_loop (map g (sort_key match_y matches)) (map g []) = map g (dedup_loop (sort_key match_y matches) [])"
    by (rule dedup_loop_map) (simp add: g)
  then show "filtered_of (map g matches) = map g (filtered_of matches)"
    by (simp add: filtered_of_def sort_key_map_y g)
qed

lemma filtered_raw: "filtered_of raw_matches = [(100, 100, 9 / 10), (540, 910, 7 / 10)]"
  by (simp add: filtered_of_def raw_matches_def match_y_def)

text \<open>
  Three raw matches, two of them 10 px apart vertically and 200 px apart horizontally:
  two entries remain, 810 px apart, and moving all matches 400 px to the right moves
  the result with them.
\<close>

theorem C7_dedup_witness:
  "filtered_of raw_matches = [(100, 100, 9 / 10), (540, 910, 7 / 10)]
   \<and> 50 \<le> \<bar>match_y (filtered_of raw_matches ! 0) - match_y (filtered_of raw_matches ! 1)\<bar>
   \<and> filtered_of (map move_right raw_matches) = map move_right (filtered_of raw_matches)"
proof -
  have y: "\<forall>m. match_y (move_right m) = match_y m"
    by (simp add: move_right_def match_y_def)
  have len: "(0::nat) < length (filtered_of raw_matches)" "(1::nat) < length (filtered_of raw_matches)"
    by (simp_all add: filtered_raw)
  from C7_dedup [of raw_matches] len y
  have "50 \<le> \<bar>match_y (filtered_of raw_matches ! 0) - match_y (filtered_of raw_matches ! 1)\<bar>"
    and "filtered_of (map move_right raw_matches) = map move_right (filtered_of raw_matches)"
    by auto
  then show ?thesis by (simp add: filtered_raw)
qed

subsection \<open>The surface, the threshold and the result\<close>

lemma set_np_where_ge:
  "set (np_where_ge result thr) =
     {(py, px). py < length result \<and> px < length (result ! py) \<and> thr \<le> result ! py ! px}"
  by (auto simp: np_where_ge_def)

lemma set_concat_nth:
  "set (concat result) = {v. \<exists>py px. py < length result \<and> px < length (result ! py) \<and> v = result ! py ! px}"
proof (rule set_eqI)
  fix v
  have "(v \<in> set (concat result)) = (\<exists>row\<in>set result. v \<in> set row)"
    by simp
  also have "\<dots> = (\<exists>py<length result. v \<in> set (result ! py))"
    by (metis in_set_conv_nth)
  also have "\<dots> = (\<exists>py<length result. \<exists>px<length (result ! py). v = result ! py ! px)"
    by (metis in_set_conv_nth)
  finally show "(v \<in> set (concat result)) = (v \<in> {v. \<exists>py px. py < length result \<and> px < length (result ! py) \<and> v = result ! py ! px})"
    by blast
qed


lemma np_where_ge_empty:
  "(np_where_ge result thr = []) = (\<forall>v\<in>set (concat result). v < thr)"
proof -
  have "(np_where_ge result thr = []) = (set (np_where_ge result thr) = {})"
    by simp
  also have "\<dots> = (\<forall>py px. py < length result \<and> px < length (result ! py) \<longrightarrow> result ! py ! px < thr)"
    unfolding set_np_where_ge by (auto simp: not_le)
  also have "\<dots> = (\<forall>v\<in>set (concat result). v < thr)"
    unfolding set_concat_nth by blast
  finally show ?thesis .
qed

lemma minMaxLoc_Max:
  "concat result \<noteq> [] \<Longrightarrow> minMaxLoc_max_val result = Inr (Max (set (concat result)))"
proof -
  assume "concat result \<noteq> []"
  then obtain v vs where c: "concat result = v # vs" by (cases "concat result") auto
  have "fold max vs v = Max (set (v # vs))" by (rule Max.set_eq_fold [symmetric])
  then show ?thesis by (simp add: minMaxLoc_max_val_def c)
qed

lemma matchTemplate_surface:
  assumes "matchTemplate corr img templ = Inr result"
  shows "\<exists>big small. result = map (\<lambda>y. map (\<lambda>x. corr big small y x) [0..<width big - width small + 1])
                                     [0..<height big - height small + 1]"
  using assms unfolding matchTemplate_def Let_def
  by (cases "height img < height templ \<or> width img < width templ") (auto split: if_splits)

lemma matchTemplate_nonempty:
  assumes "matchTemplate corr img templ = Inr result"
  shows "concat result \<noteq> []"
proof -
  from assms obtain big small where
    r: "result = map (\<lambda>y. map (\<lambda>x. corr big small y x) [0..<width big - width small + 1])
                     [0..<height big - height small + 1]"
    using matchTemplate_surface by blast
  let ?row = "\<lambda>y. map (\<lambda>x. corr big small y x) [0..<width big - width small + 1]"
  have "length result = height big - height small + 1"
    unfolding r by simp
  then have "0 < length result" by simp
  moreover have "result ! 0 = ?row 0"
    unfolding r by (simp add: nth_map del: upt_Suc)
  then have "0 < length (result ! 0)"
    by simp
  ultimately have "result ! 0 ! 0 \<in> set (concat result)"
    unfolding set_concat_nth by blast
  then show ?thesis by (metis empty_iff empty_set)
qed

lemma matchTemplate_raises:
  "(matchTemplate corr img templ = Inl e) =
     (e = CvError \<and> (height img < height templ \<and> width templ < width img
                      \<or> width img < width templ \<and> height templ < height img))"
  unfolding matchTemplate_def Let_def by (auto split: if_splits)

lemma matches_of_conf:
  assumes "m \<in> set (matches_of templ result (np_where_ge result thr))"
  shows "thr \<le> match_conf m \<and> match_conf m \<in> set (concat result)"
proof -
  from assms obtain py px where loc: "(py, px) \<in> set (np_where_ge result thr)"
    and m: "match_conf m = result ! py ! px"
    by (auto simp: matches_of_def match_conf_def)
  from loc have "py < length result" "px < length (result ! py)" "thr \<le> result ! py ! px"
    by (auto simp: set_np_where_ge)
  then show ?thesis unfolding m set_concat_nth by blast
qed

lemma filtered_of_subset: "set (filtered_of ms) \<subseteq> set ms"
  using dedup_loop_set [of "sort_key match_y ms" "[]"] by (simp add: filtered_of_def)

lemma filtered_of_nonempty:
  assumes "ms \<noteq> []"
  shows "filtered_of ms \<noteq> []"
proof -
  have "length (sort_key match_y ms) = length ms" by simp
  then have "sort_key match_y ms \<noteq> []" using assms by (metis length_0_conv)
  then show ?thesis
    unfolding filtered_of_def using dedup_loop_nonempty by blast
qed


lemma max_from_member: "max_from best ms \<in> set (best # ms)"
proof (induction ms arbitrary: best)
  case Nil
  then show ?case by simp
next
  case (Cons a ms)
  show ?case
  proof (cases "match_conf best < match_conf a")
    case True
    then show ?thesis using Cons.IH [of a] by auto
  next
    case False
    then show ?thesis using Cons.IH [of best] by auto
  qed
qed

lemma select_member:
  assumes "filtered \<noteq> []"
  shows "\<exists>selected. (if topmost then first_item filtered else py_max_conf filtered) = Inr selected
                    \<and> selected \<in> set filtered"
proof (cases filtered)
  case Nil
  then show ?thesis using assms by simp
next
  case (Cons m rest)
  then show ?thesis
    using max_from_member [of m rest] by (cases topmost) (auto simp: first_item_def py_max_conf_def)
qed

lemma find_button_not_found:
  assumes "imread fs screenshot_path = Some screenshot"
      and "imread fs template_path = Some templ"
      and "matchTemplate corr screenshot templ = Inr result"
      and "\<forall>v\<in>set (concat result). v < float32_THRESHOLD"
  shows "find_button corr fs screenshot_path template_path topmost
              = Inr (not_found (Max (set (concat result))))"
proof -
  have ne: "concat result \<noteq> []"
    using assms(3) by (rule matchTemplate_nonempty)
  have "np_where_ge result float32_THRESHOLD = []"
    using assms(4) by (simp only: np_where_ge_empty)
  then show ?thesis
    using assms(1-3) by (simp add: find_button_def minMaxLoc_Max [OF ne])
qed

lemma find_button_found:
  assumes "imread fs screenshot_path = Some screenshot"
      and "imread fs template_path = Some templ"
      and "matchTemplate corr screenshot templ = Inr result"
      and "\<exists>v\<in>set (concat result). float32_THRESHOLD \<le> v"
  shows "\<exists>selected n. find_button corr fs screenshot_path template_path topmost
                             = Inr (found_at selected n)
                \<and> float32_THRESHOLD \<le> match_conf selected \<and> match_conf selected \<in> set (concat result)"
proof -
  let ?locs = "np_where_ge result float32_THRESHOLD"
  let ?ms = "matches_of templ result ?locs"
  have "\<not> (\<forall>v\<in>set (concat result). v < float32_THRESHOLD)"
    using assms(4) by (meson not_less)
  then have locs: "?locs \<noteq> []"
    by (simp only: np_where_ge_empty not_False_eq_True)
  then have "?ms \<noteq> []" by (simp add: matches_of_def)
  then have "filtered_of ?ms \<noteq> []" by (rule filtered_of_nonempty)
  then obtain selected where sel: "(if topmost then first_item (filtered_of ?ms) else py_max_conf (filtered_of ?ms)) = Inr selected"
    and mem: "selected \<in> set (filtered_of ?ms)"
    using select_member by blast
  from mem have "selected \<in> set ?ms" using filtered_of_subset by blast
  then have conf: "float32_THRESHOLD \<le> match_conf selected \<and> match_conf selected \<in> set (concat result)"
    by (rule matches_of_conf)
  have "find_button corr fs screenshot_path template_path topmost
          = Inr (found_at selected (length (filtered_of ?ms)))"
    using assms(1-3) locs sel by (simp add: find_button_def Let_def)
  then show ?thesis
    using conf by blast
qed

lemmas fixture_defs = button_img_def option_img_def feed_img_def blank_img_def menu_img_def window_def
  corr0_def corr_anti_def corr_edge_def wide_img_def fs_odd_def
  fs0_def like_template_def fs_feed_def fs_blank_def TEMPLATES_PATH_def path_join_def

lemma range_3: "[0..<3] = [0, 1, 2::nat]"
  by (simp add: upt_rec)

lemma range_2: "[0..<2] = [0, 1::nat]"
  by (simp add: upt_rec)

text \<open>
  The float32 threshold is the multiple of \<open>2 ^ -24\<close> nearest to the threshold, and
  lies below it.
\<close>

lemma float32_THRESHOLD_nearest:
  "\<bar>THRESHOLD - float32_THRESHOLD\<bar> \<le> \<bar>THRESHOLD - real_of_int k / 2 ^ 24\<bar>"
proof -
  have p: "(2::real) ^ 24 = 16777216" by simp
  show ?thesis
  proof (cases "k \<le> 10905190")
    case True
    then have "real_of_int k \<le> 10905190" by linarith
    then show ?thesis
      unfolding THRESHOLD_def float32_THRESHOLD_def p by linarith
  next
    case False
    then have "10905191 \<le> k" by simp
    then have "10905191 \<le> real_of_int k" by linarith
    then show ?thesis
      unfolding THRESHOLD_def float32_THRESHOLD_def p by linarith
  qed
qed

lemma float32_THRESHOLD_below:
  "float32_THRESHOLD = 10905190 / 2 ^ 24 \<and> float32_THRESHOLD < THRESHOLD"
  by (simp add: THRESHOLD_def float32_THRESHOLD_def)

text \<open>
  A screenshot whose only offset scores 5452595 / 8388608, the float32 nearest to 0.65:
  the score is below 0.65 and the locator reports the button as found.
\<close>

theorem C8_threshold_decides_counterexample:
  "find_button corr_edge fs_feed ''/tmp/screenshot.png'' like_template True
     = Inr [''success'' \<mapsto> VBool True, ''x'' \<mapsto> VInt 1, ''y'' \<mapsto> VInt 1,
            ''confidence'' \<mapsto> VFloat (5452595 / 8388608), ''count'' \<mapsto> VInt 1]
   \<and> (5452595 / 8388608 :: real) < THRESHOLD"
  by (simp add: find_button_def imread_def matchTemplate_def np_where_ge_def
        float32_THRESHOLD_def THRESHOLD_def matches_of_def filtered_of_def first_item_def
        found_at_def match_x_def match_y_def match_conf_def fixture_defs)

text \<open>
  Claim C8, amended. For every readable screenshot and template: when one of the two is
  smaller than the other in one dimension and larger in the other, no surface exists
  and the locator raises the OpenCV error; otherwise a surface exists. On a surface,
  if no offset reaches the threshold as numpy applies it, 0.65 rounded to float32, the
  locator returns the \<^verbatim>\<open>NOT_FOUND\<close> result, with \<^verbatim>\<open>success\<close> false and as confidence
  the largest value of the surface; if some offset reaches it, the locator returns a
  result with \<^verbatim>\<open>success\<close> true.
\<close>

theorem C8_threshold_decides:
  assumes "imread fs screenshot_path = Some screenshot"
      and "imread fs template_path = Some templ"
  shows "((height screenshot < height templ \<and> width templ < width screenshot
             \<or> width screenshot < width templ \<and> height templ < height screenshot) \<longrightarrow>
            find_button corr fs screenshot_path template_path topmost = Inl CvError)
       \<and> (\<not> (height screenshot < height templ \<and> width templ < width screenshot
             \<or> width screenshot < width templ \<and> height templ < height screenshot) \<longrightarrow>
            (\<exists>result. matchTemplate corr screenshot templ = Inr result))
       \<and> (\<forall>result. matchTemplate corr screenshot templ = Inr result \<longrightarrow>
            ((\<forall>v\<in>set (concat result). v < float32_THRESHOLD) \<longrightarrow>
               (\<exists>d. find_button corr fs screenshot_path template_path topmost = Inr d
                    \<and> d ''success'' = Some (VBool False)
                    \<and> d ''error'' = Some (VStr ''NOT_FOUND'')
                    \<and> d ''confidence'' = Some (VFloat (Max (set (concat result))))))
          \<and> ((\<exists>v\<in>set (concat result). float32_THRESHOLD \<le> v) \<longrightarrow>
               (\<exists>d. find_button corr fs screenshot_path template_path topmost = Inr d
                    \<and> d ''success'' = Some (VBool True))))"
proof (intro conjI allI impI)
  assume "height screenshot < height templ \<and> width templ < width screenshot
             \<or> width screenshot < width templ \<and> height templ < height screenshot"
  then have "matchTemplate corr screenshot templ = Inl CvError"
    by (simp add: matchTemplate_raises)
  then show "find_button corr fs screenshot_path template_path topmost = Inl CvError"
    using assms by (simp add: find_button_def)
next
  assume fits: "\<not> (height screenshot < height templ \<and> width templ < width screenshot
             \<or> width screenshot < width templ \<and> height templ < height screenshot)"
  show "\<exists>result. matchTemplate corr screenshot templ = Inr result"
  proof (cases "matchTemplate corr screenshot templ")
    case (Inl e)
    then have False using fits by (simp add: matchTemplate_raises)
    then show ?thesis ..
  next
    case (Inr result)
    then show ?thesis by blast
  qed
next
  fix result
  assume r: "matchTemplate corr screenshot templ = Inr result"
    and low: "\<forall>v\<in>set (concat result). v < float32_THRESHOLD"
  have "find_button corr fs screenshot_path template_path topmost
               = Inr (not_found (Max (set (concat result))))"
    using assms r low by (rule find_button_not_found)
  then show "\<exists>d. find_button corr fs screenshot_path template_path topmost = Inr d
                 \<and> d ''success'' = Some (VBool False)
                 \<and> d ''error'' = Some (VStr ''NOT_FOUND'')
                 \<and> d ''confidence'' = Some (VFloat (Max (set (concat result))))"
    by (simp add: not_found_def)
next
  fix result
  assume r: "matchTemplate corr screenshot templ = Inr result"
    and high: "\<exists>v\<in>set (concat result). float32_THRESHOLD \<le> v"
  obtain selected n where "find_button corr fs screenshot_path template_path topmost
               = Inr (found_at selected n)"
    using find_button_found [OF assms r high] by blast
  then show "\<exists>d. find_button corr fs screenshot_path template_path topmost = Inr d
                 \<and> d ''success'' = Some (VBool True)"
    by (simp add: found_at_def)
qed

text \<open>
  A blank screenshot scores 0.6 at its only offset and is not found, with 0.6 reported;
  a screenshot that shows the button scores 0.9 and is found; a template that is wider
  and lower than the screenshot raises; a template that is larger both ways is swapped
  with the screenshot and gives a surface of two rows and three columns.
\<close>

theorem C8_threshold_decides_witness:
  "(\<exists>d. find_button corr0 fs_blank ''/tmp/screenshot.png'' like_template True = Inr d
        \<and> d ''success'' = Some (VBool False)
        \<and> d ''error'' = Some (VStr ''NOT_FOUND'')
        \<and> d ''confidence'' = Some (VFloat (6 / 10)))
   \<and> (\<exists>d. find_button corr0 fs_feed ''/tmp/screenshot.png'' like_template True = Inr d
        \<and> d ''success'' = Some (VBool True))
   \<and> find_button corr0 fs_odd ''/tmp/screenshot.png'' ''wide.png'' True = Inl CvError
   \<and> (\<exists>d. find_button corr0 fs_odd ''/tmp/screenshot.png'' ''large.png'' True = Inr d
        \<and> d ''success'' = Some (VBool False)
        \<and> d ''confidence'' = Some (VFloat (6 / 10)))"
proof (intro conjI)
  have b1: "imread fs_blank ''/tmp/screenshot.png'' = Some blank_img"
    by (simp add: imread_def fixture_defs)
  have b2: "imread fs_blank like_template = Some button_img"
    by (simp add: imread_def fixture_defs)
  have b3: "matchTemplate corr0 blank_img button_img = Inr [[6 / 10]]"
    by (simp add: matchTemplate_def fixture_defs)
  have f1: "imread fs_feed ''/tmp/screenshot.png'' = Some feed_img"
    by (simp add: imread_def fixture_defs)
  have f2: "imread fs_feed like_template = Some button_img"
    by (simp add: imread_def fixture_defs)
  have f3: "matchTemplate corr0 feed_img button_img = Inr [[9 / 10]]"
    by (simp add: matchTemplate_def fixture_defs)
  have o1: "imread fs_odd ''/tmp/screenshot.png'' = Some feed_img"
    by (simp add: imread_def fixture_defs)
  have o2: "imread fs_odd ''wide.png'' = Some wide_img"
    by (simp add: imread_def fixture_defs)
  have o3: "imread fs_odd ''large.png'' = Some menu_img"
    by (simp add: imread_def fixture_defs)
  have wide: "width feed_img < width wide_img \<and> height wide_img < height feed_img"
    by (simp add: fixture_defs)
  have l3: "matchTemplate corr0 feed_img menu_img
              = Inr [[6 / 10, 6 / 10, 6 / 10], [6 / 10, 6 / 10, 6 / 10]]"
    by (simp add: matchTemplate_def fixture_defs range_2 range_3)
  have low: "\<forall>v\<in>set (concat [[6 / 10 :: real]]). v < float32_THRESHOLD"
    by (simp add: float32_THRESHOLD_def)
  have high: "\<exists>v\<in>set (concat [[9 / 10 :: real]]). float32_THRESHOLD \<le> v"
    by (rule bexI [of _ "9 / 10"]) (simp_all add: float32_THRESHOLD_def)
  have low2: "\<forall>v\<in>set (concat [[6 / 10 :: real, 6 / 10, 6 / 10], [6 / 10, 6 / 10, 6 / 10]]).
                 v < float32_THRESHOLD"
    by (simp add: float32_THRESHOLD_def)
  note surf = conjunct2 [OF conjunct2]
  from C8_threshold_decides [OF b1 b2, of corr0 True, THEN surf] b3 low
  have "\<exists>d. find_button corr0 fs_blank ''/tmp/screenshot.png'' like_template True = Inr d
        \<and> d ''success'' = Some (VBool False)
        \<and> d ''error'' = Some (VStr ''NOT_FOUND'')
        \<and> d ''confidence'' = Some (VFloat (Max (set (concat [[6 / 10]]))))"
    by blast
  then show "\<exists>d. find_button corr0 fs_blank ''/tmp/screenshot.png'' like_template True = Inr d
        \<and> d ''success'' = Some (VBool False)
        \<and> d ''error'' = Some (VStr ''NOT_FOUND'')
        \<and> d ''confidence'' = Some (VFloat (6 / 10))"
    by simp
  from C8_threshold_decides [OF f1 f2, of corr0 True, THEN surf] f3 high
  show "\<exists>d. find_button corr0 fs_feed ''/tmp/screenshot.png'' like_template True = Inr d
        \<and> d ''success'' = Some (VBool True)"
    by blast
  from C8_threshold_decides [OF o1 o2, of corr0 True, THEN conjunct1] wide
  show "find_button corr0 fs_odd ''/tmp/screenshot.png'' ''wide.png'' True = Inl CvError"
    by blast
  from C8_threshold_decides [OF o1 o3, of corr0 True, THEN surf] l3 low2
  have "\<exists>d. find_button corr0 fs_odd ''/tmp/screenshot.png'' ''large.png'' True = Inr d
        \<and> d ''success'' = Some (VBool False)
        \<and> d ''error'' = Some (VStr ''NOT_FOUND'')
        \<and> d ''confidence'' = Some (VFloat (Max (set (concat
              [[6 / 10, 6 / 10, 6 / 10], [6 / 10, 6 / 10, 6 / 10]]))))"
    by blast
  then show "\<exists>d. find_button corr0 fs_odd ''/tmp/screenshot.png'' ''large.png'' True = Inr d
        \<and> d ''success'' = Some (VBool False)
        \<and> d ''confidence'' = Some (VFloat (6 / 10))"
    by auto
qed

text \<open>
  The locator passes the scores of the surface on as they are. Where screenshot and
  template are anti-correlated at every offset, the \<^verbatim>\<open>NOT_FOUND\<close> result carries a
  negative confidence; and a score equal to the float32 threshold is found with a
  confidence below 0.65.
\<close>

theorem C4_confidence_unit_interval_counterexample:
  "find_button corr_anti fs_blank ''/tmp/screenshot.png'' like_template True
     = Inr [''success'' \<mapsto> VBool False, ''error'' \<mapsto> VStr ''NOT_FOUND'', ''x'' \<mapsto> VNone,
            ''y'' \<mapsto> VNone, ''confidence'' \<mapsto> VFloat (- 1 / 2), ''count'' \<mapsto> VInt 0]
   \<and> \<not> (0 \<le> (- 1 / 2 :: real))
   \<and> find_button corr_edge fs_blank ''/tmp/screenshot.png'' like_template True
     = Inr [''success'' \<mapsto> VBool True, ''x'' \<mapsto> VInt 1, ''y'' \<mapsto> VInt 1,
            ''confidence'' \<mapsto> VFloat (5452595 / 8388608), ''count'' \<mapsto> VInt 1]
   \<and> \<not> (THRESHOLD \<le> (5452595 / 8388608 :: real))"
  by (simp add: find_button_def imread_def matchTemplate_def np_where_ge_def minMaxLoc_max_val_def
        float32_THRESHOLD_def THRESHOLD_def not_found_def matches_of_def filtered_of_def
        first_item_def found_at_def match_x_def match_y_def match_conf_def fixture_defs)

text \<open>
  Claim C4, amended. For a readable screenshot and template whose correlation surface
  exists, the confidence the locator returns is one of the values of the surface,
  unclamped: in a found result it is at least the threshold as numpy applies it, 0.65
  rounded to float32 (5452595 / 8388608, just below 0.65); in a not-found result it is
  the maximum of the surface and lies below that float32 threshold.
\<close>

theorem C4_confidence_from_surface:
  assumes "imread fs screenshot_path = Some screenshot"
      and "imread fs template_path = Some templ"
      and "matchTemplate corr screenshot templ = Inr result"
  shows "\<exists>d c. find_button corr fs screenshot_path template_path topmost = Inr d
           \<and> d ''confidence'' = Some (VFloat c)
           \<and> c \<in> set (concat result)
           \<and> (d ''success'' = Some (VBool True) \<and> float32_THRESHOLD \<le> c
               \<or> d ''success'' = Some (VBool False) \<and> c < float32_THRESHOLD
                  \<and> c = Max (set (concat result)))"
proof (cases "\<forall>v\<in>set (concat result). v < float32_THRESHOLD")
  case True
  let ?c = "Max (set (concat result))"
  have ne: "concat result \<noteq> []"
    using assms(3) by (rule matchTemplate_nonempty)
  then have mem: "?c \<in> set (concat result)"
    by (metis List.finite_set Max_in set_empty)
  then have below: "?c < float32_THRESHOLD" using True by blast
  have "find_button corr fs screenshot_path template_path topmost = Inr (not_found ?c)"
    using assms True by (rule find_button_not_found)
  moreover have "not_found ?c ''confidence'' = Some (VFloat ?c)"
    and "not_found ?c ''success'' = Some (VBool False)"
    by (simp_all add: not_found_def)
  ultimately show ?thesis using mem below by blast
next
  case False
  then have "\<exists>v\<in>set (concat result). float32_THRESHOLD \<le> v"
    by (meson not_less)
  then obtain selected n where fb: "find_button corr fs screenshot_path template_path topmost
               = Inr (found_at selected n)"
    and c: "float32_THRESHOLD \<le> match_conf selected" "match_conf selected \<in> set (concat result)"
    using find_button_found [OF assms] by blast
  have "found_at selected n ''confidence'' = Some (VFloat (match_conf selected))"
    and "found_at selected n ''success'' = Some (VBool True)"
    by (simp_all add: found_at_def)
  then show ?thesis using fb c by blast
qed

text \<open>
  The blank screenshot under the anti-correlated score is not found with confidence
  -0.5; under the score that equals the float32 threshold it is found with that score,
  which is below 0.65; the screenshot that shows the button is found with 0.9.
\<close>

theorem C4_confidence_from_surface_witness:
  "(\<exists>d. find_button corr_anti fs_blank ''/tmp/screenshot.png'' like_template True = Inr d
        \<and> d ''confidence'' = Some (VFloat (- 1 / 2)) \<and> d ''success'' = Some (VBool False))
   \<and> (\<exists>d. find_button corr_edge fs_blank ''/tmp/screenshot.png'' like_template True = Inr d
        \<and> d ''confidence'' = Some (VFloat (5452595 / 8388608))
        \<and> d ''success'' = Some (VBool True))
   \<and> (\<exists>d. find_button corr0 fs_feed ''/tmp/screenshot.png'' like_template True = Inr d
        \<and> d ''confidence'' = Some (VFloat (9 / 10)) \<and> d ''success'' = Some (VBool True))
   \<and> (5452595 / 8388608 :: real) < THRESHOLD"
proof (intro conjI)
  have b1: "imread fs_blank ''/tmp/screenshot.png'' = Some blank_img"
    by (simp add: imread_def fixture_defs)
  have b2: "imread fs_blank like_template = Some button_img"
    by (simp add: imread_def fixture_defs)
  have f1: "imread fs_feed ''/tmp/screenshot.png'' = Some feed_img"
    by (simp add: imread_def fixture_defs)
  have f2: "imread fs_feed like_template = Some button_img"
    by (simp add: imread_def fixture_defs)
  have m1: "matchTemplate corr_anti blank_img button_img = Inr [[- 1 / 2]]"
    by (simp add: matchTemplate_def fixture_defs)
  have m2: "matchTemplate corr_edge blank_img button_img = Inr [[5452595 / 8388608]]"
    by (simp add: matchTemplate_def fixture_defs)
  have m3: "matchTemplate corr0 feed_img button_img = Inr [[9 / 10]]"
    by (simp add: matchTemplate_def fixture_defs)
  from C4_confidence_from_surface [OF b1 b2 m1, of True]
  obtain d c where "find_button corr_anti fs_blank ''/tmp/screenshot.png'' like_template True = Inr d"
    and "d ''confidence'' = Some (VFloat c)" and "c \<in> set (concat [[- 1 / 2 :: real]])"
    and "d ''success'' = Some (VBool True) \<and> float32_THRESHOLD \<le> c
               \<or> d ''success'' = Some (VBool False) \<and> c < float32_THRESHOLD
                  \<and> c = Max (set (concat [[- 1 / 2]]))"
    by blast
  then show "\<exists>d. find_button corr_anti fs_blank ''/tmp/screenshot.png'' like_template True = Inr d
        \<and> d ''confidence'' = Some (VFloat (- 1 / 2)) \<and> d ''success'' = Some (VBool False)"
    by (auto simp: float32_THRESHOLD_def)
  from C4_confidence_from_surface [OF b1 b2 m2, of True]
  obtain d c where "find_button corr_edge fs_blank ''/tmp/screenshot.png'' like_template True = Inr d"
    and "d ''confidence'' = Some (VFloat c)" and "c \<in> set (concat [[5452595 / 8388608 :: real]])"
    and "d ''success'' = Some (VBool True) \<and> float32_THRESHOLD \<le> c
               \<or> d ''success'' = Some (VBool False) \<and> c < float32_THRESHOLD
                  \<and> c = Max (set (concat [[5452595 / 8388608]]))"
    by blast
  then show "\<exists>d. find_button corr_edge fs_blank ''/tmp/screenshot.png'' like_template True = Inr d
        \<and> d ''confidence'' = Some (VFloat (5452595 / 8388608))
        \<and> d ''success'' = Some (VBool True)"
    by (auto simp: float32_THRESHOLD_def)
  from C4_confidence_from_surface [OF f1 f2 m3, of True]
  obtain d c where "find_button corr0 fs_feed ''/tmp/screenshot.png'' like_template True = Inr d"
    and "d ''confidence'' = Some (VFloat c)" and "c \<in> set (concat [[9 / 10 :: real]])"
    and "d ''success'' = Some (VBool True) \<and> float32_THRESHOLD \<le> c
               \<or> d ''success'' = Some (VBool False) \<and> c < float32_THRESHOLD
                  \<and> c = Max (set (concat [[9 / 10]]))"
    by blast
  then show "\<exists>d. find_button corr0 fs_feed ''/tmp/screenshot.png'' like_template True = Inr d
        \<and> d ''confidence'' = Some (VFloat (9 / 10)) \<and> d ''success'' = Some (VBool True)"
    by (auto simp: float32_THRESHOLD_def)
  show "(5452595 / 8388608 :: real) < THRESHOLD"
    by (simp add: THRESHOLD_def)
qed

section \<open>Properties of the action scripts\<close>

lemmas device_defs = dev_ok_def dev_closed_def dev_blank_def dev_dark_def dev_no_tap_def dev_flaky_def dev_no_menu_def dev_menu_def
  vision_none_def post_def

lemmas client_defs = open_url_def take_screenshot_def tap_def scroll_down_def input_text_def sleep_def
  generate_ai_comment_def start_def

lemmas const_defs = MAX_RETRY_def WAIT_AFTER_OPEN_def WAIT_AFTER_SCROLL_def initial_vars_def
  like_TEMP_SCREENSHOT_def like_TEMP_SCREENSHOT_AFTER_def
  follow_WAIT_AFTER_OPEN_def follow_TEMP_SCREENSHOT_def follow_TEMP_SCREENSHOT_AFTER_def
  FOLLOW_BUTTON_X_def FOLLOW_BUTTON_Y_def
  WAIT_AFTER_RETWEET_BUTTON_def retweet_TEMP_SCREENSHOT_def TEMP_SCREENSHOT_MENU_def
  retweet_TEMP_SCREENSHOT_AFTER_def REPOST_OPTION_X_def REPOST_OPTION_Y_def
  WAIT_AFTER_COMMENT_BUTTON_def POST_BUTTON_X_def POST_BUTTON_Y_def comment_TEMP_SCREENSHOT_def

lemmas locator_defs = find_like_button_def find_comment_button_def find_retweet_button_def
  find_repost_option_def find_button_def imread_def matchTemplate_def np_where_ge_def
  minMaxLoc_max_val_def float32_THRESHOLD_def matches_of_def filtered_of_def first_item_def py_max_conf_def
  found_at_def not_found_def load_error_def getitem_def match_x_def match_y_def match_conf_def

lemma trace_cleanup: "trace (cleanup ps w) = trace w"
  by (induction ps arbitrary: w) simp_all

subsection \<open>The comment action fails fast\<close>

text \<open>
  Claim C9. In the comment action, once the URL is open and the first screenshot is
  taken, a generation call that returns no text (\<^verbatim>\<open>None\<close> or the empty string) ends
  the action with \<^verbatim>\<open>COMMENT_GENERATION_FAILED\<close>; the generation call is the last
  event of the trace, so no capture, localization or tap follows it.
\<close>

theorem C9_generation_fail_fast:
  assumes "open_url_r dev [OpenUrl post_url]"
      and "take_screenshot_r dev [OpenUrl post_url, Sleep WAIT_AFTER_OPEN,
                                  TakeScreenshot comment_TEMP_SCREENSHOT] = Some content"
      and "no_text (vision [OpenUrl post_url, Sleep WAIT_AFTER_OPEN,
                            TakeScreenshot comment_TEMP_SCREENSHOT,
                            GenerateComment comment_TEMP_SCREENSHOT persona])"
  shows "execute_ai_comment corr dev vision fs post_url persona =
           (Inr [''success'' \<mapsto> VBool False, ''error'' \<mapsto> VStr ''COMMENT_GENERATION_FAILED''],
            \<lparr>trace = [OpenUrl post_url, Sleep WAIT_AFTER_OPEN,
                      TakeScreenshot comment_TEMP_SCREENSHOT,
                      GenerateComment comment_TEMP_SCREENSHOT persona],
             files = fs(comment_TEMP_SCREENSHOT \<mapsto> content)\<rparr>)"
  using assms by (simp add: execute_ai_comment_def client_defs Let_def)

text \<open>A vision service that answers nothing, on a device where everything else works.\<close>

theorem C9_generation_fail_fast_witness:
  "execute_ai_comment corr0 dev_ok vision_none fs0 post ''friendly'' =
     (Inr [''success'' \<mapsto> VBool False, ''error'' \<mapsto> VStr ''COMMENT_GENERATION_FAILED''],
      \<lparr>trace = [OpenUrl post, Sleep 10, TakeScreenshot ''/tmp/screenshot.png'',
                GenerateComment ''/tmp/screenshot.png'' ''friendly''],
       files = fs0(''/tmp/screenshot.png'' \<mapsto> Some feed_img)\<rparr>)"
proof -
  have 1: "open_url_r dev_ok [OpenUrl post]"
    by (simp add: dev_ok_def)
  have 2: "take_screenshot_r dev_ok [OpenUrl post, Sleep WAIT_AFTER_OPEN,
                                  TakeScreenshot comment_TEMP_SCREENSHOT] = Some (Some feed_img)"
    by (simp add: dev_ok_def)
  have 3: "no_text (vision_none [OpenUrl post, Sleep WAIT_AFTER_OPEN,
                            TakeScreenshot comment_TEMP_SCREENSHOT,
                            GenerateComment comment_TEMP_SCREENSHOT ''friendly''])"
    by (simp add: no_text_def vision_none_def)
  show ?thesis
    using C9_generation_fail_fast [where vision = vision_none and corr = corr0 and fs = fs0, OF 1 2 3]
    by (simp add: WAIT_AFTER_OPEN_def comment_TEMP_SCREENSHOT_def)
qed

subsection \<open>What the retry loop hands on\<close>

text \<open>
  Every dictionary that \<open>find_button\<close> returns is one of its three literals, so the
  look-ups in the loop never raise; a loop that ends with \<open>found\<close> hands on integer
  coordinates and a confidence of at least the float32 threshold; a loop whose every capture
  succeeds and is not found makes three attempts and two scrolls and leaves the
  confidence at its initial 0.
\<close>

lemma find_button_shape:
  assumes "find_button corr fs screenshot_path template_path topmost = Inr d"
  shows "locate_result d"
proof (cases "imread fs screenshot_path")
  case None
  then have "d = load_error ''SCREENSHOT_ERROR''"
    using assms by (simp add: find_button_def)
  then show ?thesis unfolding locate_result_def by blast
next
  case (Some screenshot)
  note s = this
  show ?thesis
  proof (cases "imread fs template_path")
    case None
    then have "d = load_error ''TEMPLATE_ERROR''"
      using assms s by (simp add: find_button_def)
    then show ?thesis unfolding locate_result_def by blast
  next
    case (Some templ)
    note t = this
    show ?thesis
    proof (cases "matchTemplate corr screenshot templ")
      case (Inl e)
      then have False using assms s t by (simp add: find_button_def)
      then show ?thesis ..
    next
      case (Inr result)
      note r = this
      show ?thesis
      proof (cases "\<forall>v\<in>set (concat result). v < float32_THRESHOLD")
        case True
        have ne: "concat result \<noteq> []" using r by (rule matchTemplate_nonempty)
        then have "Max (set (concat result)) \<in> set (concat result)"
          by (metis List.finite_set Max_in set_empty)
        then have "Max (set (concat result)) < float32_THRESHOLD" using True by blast
        moreover have "d = not_found (Max (set (concat result)))"
          using find_button_not_found [OF s t r True, of topmost] assms by simp
        ultimately show ?thesis unfolding locate_result_def by blast
      next
        case False
        then have "\<exists>v\<in>set (concat result). float32_THRESHOLD \<le> v" by (meson not_less)
        then obtain selected n where "find_button corr fs screenshot_path template_path topmost
               = Inr (found_at selected n)" and "float32_THRESHOLD \<le> match_conf selected"
          using find_button_found [OF s t r] by blast
        then have "d = found_at selected n \<and> float32_THRESHOLD \<le> match_conf selected"
          using assms by simp
        then show ?thesis unfolding locate_result_def by blast
      qed
    qed
  qed
qed

lemma locate_result_success:
  assumes "locate_result d"
  shows "(\<exists>b. getitem d ''success'' = Inr (VBool b)
            \<and> (b \<longrightarrow> (\<exists>m. getitem d ''x'' = Inr (VInt (match_x m)) \<and> getitem d ''y'' = Inr (VInt (match_y m))
                       \<and> getitem d ''confidence'' = Inr (VFloat (match_conf m)) \<and> float32_THRESHOLD \<le> match_conf m)))"
proof -
  consider e where "d = load_error e" | c where "d = not_found c"
    | m n where "d = found_at m n" "float32_THRESHOLD \<le> match_conf m"
    using assms unfolding locate_result_def by blast
  then show ?thesis
  proof cases
    case 1
    then have "getitem d ''success'' = Inr (VBool False)"
      by (simp add: load_error_def getitem_def)
    then show ?thesis by blast
  next
    case 2
    then have "getitem d ''success'' = Inr (VBool False)"
      by (simp add: not_found_def getitem_def)
    then show ?thesis by blast
  next
    case 3
    then have "getitem d ''success'' = Inr (VBool True)"
      and "getitem d ''x'' = Inr (VInt (match_x m))"
      and "getitem d ''y'' = Inr (VInt (match_y m))"
      and "getitem d ''confidence'' = Inr (VFloat (match_conf m))"
      by (simp_all add: found_at_def getitem_def)
    then show ?thesis using 3(2) by blast
  qed
qed

lemma retry_loop_found:
  assumes shape: "\<And>fs p d. finder fs p = Inr d \<Longrightarrow> locate_result d"
      and run: "retry_loop dev finder path attempts (False, x0, y0, c0, r0) w
                  = (Inr (True, px, py, c, rc), w')"
  shows "\<exists>x y cf. px = VInt x \<and> py = VInt y \<and> c = VFloat cf \<and> float32_THRESHOLD \<le> cf"
  using run
proof (induction attempts arbitrary: r0 w)
  case Nil
  then show ?case by simp
next
  case (Cons i rest)
  let ?t = "trace w @ [TakeScreenshot path]"
  show ?case
  proof (cases "take_screenshot_r dev ?t")
    case None
    then have "retry_loop dev finder path rest (False, x0, y0, c0, int i + 1) (w\<lparr>trace := ?t\<rparr>)
                 = (Inr (True, px, py, c, rc), w')"
      using Cons.prems by (simp add: take_screenshot_def Let_def)
    then show ?thesis by (rule Cons.IH)
  next
    case (Some content)
    let ?fs = "(files w)(path \<mapsto> content)"
    show ?thesis
    proof (cases "finder ?fs path")
      case (Inl e)
      then show ?thesis
        using Cons.prems Some by (simp add: take_screenshot_def Let_def)
    next
      case (Inr d)
      then have "locate_result d" by (rule shape)
      then obtain b where b: "getitem d ''success'' = Inr (VBool b)"
        and found: "b \<longrightarrow> (\<exists>m. getitem d ''x'' = Inr (VInt (match_x m)) \<and> getitem d ''y'' = Inr (VInt (match_y m))
                       \<and> getitem d ''confidence'' = Inr (VFloat (match_conf m)) \<and> float32_THRESHOLD \<le> match_conf m)"
        using locate_result_success by blast
      show ?thesis
      proof (cases b)
        case True
        then obtain m where "getitem d ''x'' = Inr (VInt (match_x m))" "getitem d ''y'' = Inr (VInt (match_y m))"
           "getitem d ''confidence'' = Inr (VFloat (match_conf m))" "float32_THRESHOLD \<le> match_conf m"
          using found by blast
        then show ?thesis
          using Cons.prems Some Inr b True by (auto simp: take_screenshot_def Let_def)
      next
        case False
        show ?thesis
        proof (cases "i < MAX_RETRY - 1")
          case True
          then have "retry_loop dev finder path rest (False, x0, y0, c0, int i + 1)
                       (w\<lparr>files := ?fs,
                          trace := trace w @ [TakeScreenshot path, Locate path, ScrollDown, Sleep WAIT_AFTER_SCROLL]\<rparr>)
                 = (Inr (True, px, py, c, rc), w')"
            using Cons.prems Some Inr b False
            by (simp add: take_screenshot_def scroll_down_def sleep_def Let_def)
          then show ?thesis by (rule Cons.IH)
        next
          case no_scroll: False
          then have "retry_loop dev finder path rest (False, x0, y0, c0, int i + 1)
                       (w\<lparr>files := ?fs, trace := trace w @ [TakeScreenshot path, Locate path]\<rparr>)
                 = (Inr (True, px, py, c, rc), w')"
            using Cons.prems Some Inr b False
            by (simp add: take_screenshot_def Let_def)
          then show ?thesis by (rule Cons.IH)
        qed
      qed
    qed
  qed
qed

lemma retry_loop_never_found:
  assumes caps: "\<And>t. \<exists>content d. take_screenshot_r dev t = Some content
                     \<and> finder ((files w)(path \<mapsto> content)) path = Inr d
                     \<and> d ''success'' = Some (VBool False)"
  shows "fst (retry_loop dev finder path [0..<MAX_RETRY] initial_vars w)
           = Inr (False, VNone, VNone, VInt 0, 3)
       \<and> trace (snd (retry_loop dev finder path [0..<MAX_RETRY] initial_vars w))
           = trace w @ [TakeScreenshot path, Locate path, ScrollDown, Sleep WAIT_AFTER_SCROLL,
                        TakeScreenshot path, Locate path, ScrollDown, Sleep WAIT_AFTER_SCROLL,
                        TakeScreenshot path, Locate path]"
proof -
  let ?t1 = "trace w @ [TakeScreenshot path]"
  let ?t2 = "trace w @ [TakeScreenshot path, Locate path, ScrollDown, Sleep WAIT_AFTER_SCROLL,
                        TakeScreenshot path]"
  let ?t3 = "trace w @ [TakeScreenshot path, Locate path, ScrollDown, Sleep WAIT_AFTER_SCROLL,
                        TakeScreenshot path, Locate path, ScrollDown, Sleep WAIT_AFTER_SCROLL,
                        TakeScreenshot path]"
  obtain c1 d1 where 1: "take_screenshot_r dev ?t1 = Some c1"
      "finder ((files w)(path \<mapsto> c1)) path = Inr d1" "d1 ''success'' = Some (VBool False)"
    using caps [of ?t1] by blast
  obtain c2 d2 where 2: "take_screenshot_r dev ?t2 = Some c2"
      "finder ((files w)(path \<mapsto> c2)) path = Inr d2" "d2 ''success'' = Some (VBool False)"
    using caps [of ?t2] by blast
  obtain c3 d3 where 3: "take_screenshot_r dev ?t3 = Some c3"
      "finder ((files w)(path \<mapsto> c3)) path = Inr d3" "d3 ''success'' = Some (VBool False)"
    using caps [of ?t3] by blast
  have r: "[0..<MAX_RETRY] = [0, 1, 2]"
    by (simp add: MAX_RETRY_def range_3)
  show ?thesis
    unfolding r initial_vars_def using 1 2 3
    by (simp add: take_screenshot_def scroll_down_def sleep_def Let_def getitem_def MAX_RETRY_def)
qed

subsection \<open>The retweet action\<close>

lemma retweet_loop_feed:
  assumes "take_screenshot_r dev [OpenUrl post, Sleep WAIT_AFTER_OPEN,
                                  TakeScreenshot retweet_TEMP_SCREENSHOT] = Some (Some feed_img)"
  shows "retry_loop dev (find_retweet_button corr0) retweet_TEMP_SCREENSHOT [0..<MAX_RETRY]
           initial_vars \<lparr>trace = [OpenUrl post, Sleep WAIT_AFTER_OPEN], files = fs0\<rparr>
         = (Inr (True, VInt 1, VInt 1, VFloat (9 / 10), 1),
            \<lparr>trace = [OpenUrl post, Sleep WAIT_AFTER_OPEN, TakeScreenshot retweet_TEMP_SCREENSHOT,
                      Locate retweet_TEMP_SCREENSHOT],
             files = fs0(retweet_TEMP_SCREENSHOT \<mapsto> Some feed_img)\<rparr>)"
proof -
  have found: "find_retweet_button corr0 (fs0(retweet_TEMP_SCREENSHOT \<mapsto> Some feed_img))
                 retweet_TEMP_SCREENSHOT = Inr (found_at (1, 1, 9 / 10) 1)"
    by (simp add: locator_defs fixture_defs retweet_TEMP_SCREENSHOT_def)
  have "[0..<MAX_RETRY] = [0, 1, 2]"
    by (simp add: MAX_RETRY_def range_3)
  then show ?thesis
    using assms found
    by (simp add: take_screenshot_def initial_vars_def Let_def getitem_def found_at_def
          match_x_def match_y_def match_conf_def)
qed

lemma repost_on_feed:
  "find_repost_option corr0 (fs0(retweet_TEMP_SCREENSHOT \<mapsto> Some feed_img,
                                   TEMP_SCREENSHOT_MENU \<mapsto> Some feed_img)) TEMP_SCREENSHOT_MENU
     = Inr (not_found (6 / 10))"
  by (simp add: locator_defs fixture_defs retweet_TEMP_SCREENSHOT_def TEMP_SCREENSHOT_MENU_def)

lemma repost_on_menu:
  "find_repost_option corr0 (fs0(retweet_TEMP_SCREENSHOT \<mapsto> Some feed_img,
                                   TEMP_SCREENSHOT_MENU \<mapsto> Some menu_img)) TEMP_SCREENSHOT_MENU
     = Inr (found_at (3, 2, 9 / 10) 1)"
  by (simp add: locator_defs fixture_defs retweet_TEMP_SCREENSHOT_def TEMP_SCREENSHOT_MENU_def
        range_2 range_3)



text \<open>
  A run in which the repost option is not found in the menu and the tap at the fixed
  coordinate succeeds. The returned dictionary carries the coordinates (1, 1) and the
  confidence 0.9 of the retweet button; (230, 1440) occurs in the trace only.
\<close>

theorem C2_fallback_reports_fallback_counterexample:
  "fst (execute_retweet corr0 dev_ok fs0 post) =
     Inr [''success'' \<mapsto> VBool True, ''x'' \<mapsto> VInt 1, ''y'' \<mapsto> VInt 1,
          ''confidence'' \<mapsto> VFloat (9 / 10), ''retry_count'' \<mapsto> VInt 1]
   \<and> trace (snd (execute_retweet corr0 dev_ok fs0 post)) =
       [OpenUrl post, Sleep 10, TakeScreenshot ''/tmp/screenshot_retweet.png'',
        Locate ''/tmp/screenshot_retweet.png'', Tap (VInt 1) (VInt 1), Sleep 2,
        TakeScreenshot ''/tmp/screenshot_retweet_menu.png'',
        Locate ''/tmp/screenshot_retweet_menu.png'', Tap (VInt 230) (VInt 1440), Sleep 1,
        TakeScreenshot ''/tmp/screenshot_retweet_after.png'']
   \<and> find_repost_option corr0 (fs0(''/tmp/screenshot_retweet.png'' \<mapsto> Some feed_img,
                                     ''/tmp/screenshot_retweet_menu.png'' \<mapsto> Some feed_img))
         ''/tmp/screenshot_retweet_menu.png'' = Inr (not_found (6 / 10))"
proof -
  let ?w2 = "\<lparr>trace = [OpenUrl post, Sleep WAIT_AFTER_OPEN], files = fs0\<rparr>"
  have loop: "retry_loop dev_ok (find_retweet_button corr0) retweet_TEMP_SCREENSHOT [0..<MAX_RETRY]
           initial_vars ?w2
         = (Inr (True, VInt 1, VInt 1, VFloat (9 / 10), 1),
            \<lparr>trace = [OpenUrl post, Sleep WAIT_AFTER_OPEN, TakeScreenshot retweet_TEMP_SCREENSHOT,
                      Locate retweet_TEMP_SCREENSHOT],
             files = fs0(retweet_TEMP_SCREENSHOT \<mapsto> Some feed_img)\<rparr>)"
    by (rule retweet_loop_feed) (simp add: device_defs)
  have menu: "find_repost_option corr0 (fs0(retweet_TEMP_SCREENSHOT \<mapsto> Some feed_img,
                                   TEMP_SCREENSHOT_MENU \<mapsto> Some feed_img)) TEMP_SCREENSHOT_MENU
     = Inr (not_found (6 / 10))"
    by (rule repost_on_feed)
  have run: "execute_retweet corr0 dev_ok fs0 post =
    (Inr [''success'' \<mapsto> VBool True, ''x'' \<mapsto> VInt 1, ''y'' \<mapsto> VInt 1,
          ''confidence'' \<mapsto> VFloat (9 / 10), ''retry_count'' \<mapsto> VInt 1],
     cleanup [retweet_TEMP_SCREENSHOT, TEMP_SCREENSHOT_MENU, retweet_TEMP_SCREENSHOT_AFTER]
      \<lparr>trace = [OpenUrl post, Sleep WAIT_AFTER_OPEN, TakeScreenshot retweet_TEMP_SCREENSHOT,
                      Locate retweet_TEMP_SCREENSHOT, Tap (VInt 1) (VInt 1), Sleep WAIT_AFTER_RETWEET_BUTTON,
                      TakeScreenshot TEMP_SCREENSHOT_MENU, Locate TEMP_SCREENSHOT_MENU,
                      Tap (VInt REPOST_OPTION_X) (VInt REPOST_OPTION_Y), Sleep 1,
                      TakeScreenshot retweet_TEMP_SCREENSHOT_AFTER],
        files = fs0(retweet_TEMP_SCREENSHOT \<mapsto> Some feed_img, TEMP_SCREENSHOT_MENU \<mapsto> Some feed_img,
                    retweet_TEMP_SCREENSHOT_AFTER \<mapsto> Some feed_img)\<rparr>)"
    using loop menu
    by (simp add: execute_retweet_def client_defs Let_def dev_ok_def getitem_def not_found_def
          del: cleanup.simps)
  have tr: "\<And>ps w. trace (cleanup ps w) = trace w"
    subgoal for ps w by (induction ps arbitrary: w) simp_all
    done
  show ?thesis
    using menu
    by (simp add: run tr WAIT_AFTER_OPEN_def WAIT_AFTER_RETWEET_BUTTON_def retweet_TEMP_SCREENSHOT_def
          TEMP_SCREENSHOT_MENU_def retweet_TEMP_SCREENSHOT_AFTER_def REPOST_OPTION_X_def REPOST_OPTION_Y_def)
qed

text \<open>
  Claim C2, amended. After the retry loop has found the retweet button, the tap on it
  has succeeded and the menu has been captured: when the localization of the repost
  option fails and the tap at the fixed coordinate (230, 1440) succeeds, the action
  returns \<^verbatim>\<open>success\<close> true with the coordinates, the confidence and the retry count of
  the retweet button found by the retry loop; the fixed coordinate is tapped and is not
  reported. When the repost option is located and the tap on it succeeds, the action
  returns the same dictionary, so the outcome does not tell the two apart. The
  coordinates reported are integers, and the confidence is at least the float32
  threshold and so never 0.
\<close>

theorem C2_fallback_reports_button:
  assumes opened: "open_url_r dev [OpenUrl post_url]"
      and loop: "retry_loop dev (find_retweet_button corr) retweet_TEMP_SCREENSHOT [0..<MAX_RETRY]
                   initial_vars \<lparr>trace = [OpenUrl post_url, Sleep WAIT_AFTER_OPEN], files = fs\<rparr>
                 = (Inr (True, px, py, confidence, retry_count), w3)"
      and tapped: "tap_r dev (trace w3 @ [Tap px py])"
      and menu: "take_screenshot_r dev (trace w3 @ [Tap px py, Sleep WAIT_AFTER_RETWEET_BUTTON,
                                                    TakeScreenshot TEMP_SCREENSHOT_MENU]) = Some content"
      and located: "find_repost_option corr ((files w3)(TEMP_SCREENSHOT_MENU \<mapsto> content))
                      TEMP_SCREENSHOT_MENU = Inr d"
  shows "(d ''success'' = Some (VBool False)
          \<and> tap_r dev (trace w3 @ [Tap px py, Sleep WAIT_AFTER_RETWEET_BUTTON,
                                    TakeScreenshot TEMP_SCREENSHOT_MENU, Locate TEMP_SCREENSHOT_MENU,
                                    Tap (VInt REPOST_OPTION_X) (VInt REPOST_OPTION_Y)]) \<longrightarrow>
            fst (execute_retweet corr dev fs post_url) =
              Inr [''success'' \<mapsto> VBool True, ''x'' \<mapsto> px, ''y'' \<mapsto> py,
                   ''confidence'' \<mapsto> confidence, ''retry_count'' \<mapsto> VInt retry_count]
          \<and> trace (snd (execute_retweet corr dev fs post_url)) =
              trace w3 @ [Tap px py, Sleep WAIT_AFTER_RETWEET_BUTTON,
                          TakeScreenshot TEMP_SCREENSHOT_MENU, Locate TEMP_SCREENSHOT_MENU,
                          Tap (VInt REPOST_OPTION_X) (VInt REPOST_OPTION_Y), Sleep 1,
                          TakeScreenshot retweet_TEMP_SCREENSHOT_AFTER])
       \<and> (\<forall>rx ry. d ''success'' = Some (VBool True) \<and> d ''x'' = Some rx \<and> d ''y'' = Some ry
          \<and> tap_r dev (trace w3 @ [Tap px py, Sleep WAIT_AFTER_RETWEET_BUTTON,
                                    TakeScreenshot TEMP_SCREENSHOT_MENU, Locate TEMP_SCREENSHOT_MENU,
                                    Tap rx ry]) \<longrightarrow>
            fst (execute_retweet corr dev fs post_url) =
              Inr [''success'' \<mapsto> VBool True, ''x'' \<mapsto> px, ''y'' \<mapsto> py,
                   ''confidence'' \<mapsto> confidence, ''retry_count'' \<mapsto> VInt retry_count]
          \<and> trace (snd (execute_retweet corr dev fs post_url)) =
              trace w3 @ [Tap px py, Sleep WAIT_AFTER_RETWEET_BUTTON,
                          TakeScreenshot TEMP_SCREENSHOT_MENU, Locate TEMP_SCREENSHOT_MENU,
                          Tap rx ry, Sleep 1, TakeScreenshot retweet_TEMP_SCREENSHOT_AFTER])
       \<and> (\<exists>bx by c. px = VInt bx \<and> py = VInt by \<and> confidence = VFloat c
                     \<and> float32_THRESHOLD \<le> c \<and> 0 < c)"
proof (intro conjI allI impI)
  assume fb: "d ''success'' = Some (VBool False)
          \<and> tap_r dev (trace w3 @ [Tap px py, Sleep WAIT_AFTER_RETWEET_BUTTON,
                                    TakeScreenshot TEMP_SCREENSHOT_MENU, Locate TEMP_SCREENSHOT_MENU,
                                    Tap (VInt REPOST_OPTION_X) (VInt REPOST_OPTION_Y)])"
  show "fst (execute_retweet corr dev fs post_url) =
           Inr [''success'' \<mapsto> VBool True, ''x'' \<mapsto> px, ''y'' \<mapsto> py,
                ''confidence'' \<mapsto> confidence, ''retry_count'' \<mapsto> VInt retry_count]"
    using opened loop tapped menu located fb
    by (simp add: execute_retweet_def client_defs Let_def getitem_def split: option.splits
          del: cleanup.simps)
  show "trace (snd (execute_retweet corr dev fs post_url)) =
           trace w3 @ [Tap px py, Sleep WAIT_AFTER_RETWEET_BUTTON,
                       TakeScreenshot TEMP_SCREENSHOT_MENU, Locate TEMP_SCREENSHOT_MENU,
                       Tap (VInt REPOST_OPTION_X) (VInt REPOST_OPTION_Y), Sleep 1,
                       TakeScreenshot retweet_TEMP_SCREENSHOT_AFTER]"
    using opened loop tapped menu located fb
    by (simp add: execute_retweet_def client_defs Let_def getitem_def trace_cleanup
          split: option.splits del: cleanup.simps)
next
  fix rx ry
  assume lc: "d ''success'' = Some (VBool True) \<and> d ''x'' = Some rx \<and> d ''y'' = Some ry
          \<and> tap_r dev (trace w3 @ [Tap px py, Sleep WAIT_AFTER_RETWEET_BUTTON,
                                    TakeScreenshot TEMP_SCREENSHOT_MENU, Locate TEMP_SCREENSHOT_MENU,
                                    Tap rx ry])"
  show "fst (execute_retweet corr dev fs post_url) =
           Inr [''success'' \<mapsto> VBool True, ''x'' \<mapsto> px, ''y'' \<mapsto> py,
                ''confidence'' \<mapsto> confidence, ''retry_count'' \<mapsto> VInt retry_count]"
    using opened loop tapped menu located lc
    by (simp add: execute_retweet_def client_defs Let_def getitem_def split: option.splits
          del: cleanup.simps)
  show "trace (snd (execute_retweet corr dev fs post_url)) =
           trace w3 @ [Tap px py, Sleep WAIT_AFTER_RETWEET_BUTTON,
                       TakeScreenshot TEMP_SCREENSHOT_MENU, Locate TEMP_SCREENSHOT_MENU,
                       Tap rx ry, Sleep 1, TakeScreenshot retweet_TEMP_SCREENSHOT_AFTER]"
    using opened loop tapped menu located lc
    by (simp add: execute_retweet_def client_defs Let_def getitem_def trace_cleanup
          split: option.splits del: cleanup.simps)
next
  have "\<And>fs' p d'. find_retweet_button corr fs' p = Inr d' \<Longrightarrow> locate_result d'"
    unfolding find_retweet_button_def by (rule find_button_shape)
  then have "\<exists>bx by c. px = VInt bx \<and> py = VInt by \<and> confidence = VFloat c \<and> float32_THRESHOLD \<le> c"
    using loop unfolding initial_vars_def by (rule retry_loop_found)
  moreover have "0 < float32_THRESHOLD"
    by (simp add: float32_THRESHOLD_def)
  ultimately show "\<exists>bx by c. px = VInt bx \<and> py = VInt by \<and> confidence = VFloat c
                     \<and> float32_THRESHOLD \<le> c \<and> 0 < c"
    by force
qed

text \<open>
  The fallback run on the device whose menu capture shows no option, and the located
  run on the device whose menu capture shows the option at (3, 2): the two return the
  same dictionary.
\<close>

theorem C2_fallback_reports_button_witness:
  "fst (execute_retweet corr0 dev_ok fs0 post) =
     Inr [''success'' \<mapsto> VBool True, ''x'' \<mapsto> VInt 1, ''y'' \<mapsto> VInt 1,
          ''confidence'' \<mapsto> VFloat (9 / 10), ''retry_count'' \<mapsto> VInt 1]
   \<and> trace (snd (execute_retweet corr0 dev_ok fs0 post)) =
       [OpenUrl post, Sleep 10, TakeScreenshot ''/tmp/screenshot_retweet.png'',
        Locate ''/tmp/screenshot_retweet.png'', Tap (VInt 1) (VInt 1), Sleep 2,
        TakeScreenshot ''/tmp/screenshot_retweet_menu.png'',
        Locate ''/tmp/screenshot_retweet_menu.png'', Tap (VInt 230) (VInt 1440), Sleep 1,
        TakeScreenshot ''/tmp/screenshot_retweet_after.png'']
   \<and> fst (execute_retweet corr0 dev_menu fs0 post) =
     Inr [''success'' \<mapsto> VBool True, ''x'' \<mapsto> VInt 1, ''y'' \<mapsto> VInt 1,
          ''confidence'' \<mapsto> VFloat (9 / 10), ''retry_count'' \<mapsto> VInt 1]
   \<and> trace (snd (execute_retweet corr0 dev_menu fs0 post)) =
       [OpenUrl post, Sleep 10, TakeScreenshot ''/tmp/screenshot_retweet.png'',
        Locate ''/tmp/screenshot_retweet.png'', Tap (VInt 1) (VInt 1), Sleep 2,
        TakeScreenshot ''/tmp/screenshot_retweet_menu.png'',
        Locate ''/tmp/screenshot_retweet_menu.png'', Tap (VInt 3) (VInt 2), Sleep 1,
        TakeScreenshot ''/tmp/screenshot_retweet_after.png'']
   \<and> float32_THRESHOLD \<le> (9 / 10 :: real)"
proof -
  let ?w3 = "\<lparr>trace = [OpenUrl post, Sleep WAIT_AFTER_OPEN, TakeScreenshot retweet_TEMP_SCREENSHOT,
                      Locate retweet_TEMP_SCREENSHOT],
             files = fs0(retweet_TEMP_SCREENSHOT \<mapsto> Some feed_img)\<rparr>"
  let ?pre = "trace ?w3 @ [Tap (VInt 1) (VInt 1), Sleep WAIT_AFTER_RETWEET_BUTTON,
                           TakeScreenshot TEMP_SCREENSHOT_MENU]"
  have o: "open_url_r dev_ok [OpenUrl post]" and o': "open_url_r dev_menu [OpenUrl post]"
    by (simp_all add: device_defs)
  have l: "retry_loop dev_ok (find_retweet_button corr0) retweet_TEMP_SCREENSHOT [0..<MAX_RETRY]
           initial_vars \<lparr>trace = [OpenUrl post, Sleep WAIT_AFTER_OPEN], files = fs0\<rparr>
         = (Inr (True, VInt 1, VInt 1, VFloat (9 / 10), 1), ?w3)"
    by (rule retweet_loop_feed) (simp add: device_defs)
  have l': "retry_loop dev_menu (find_retweet_button corr0) retweet_TEMP_SCREENSHOT [0..<MAX_RETRY]
           initial_vars \<lparr>trace = [OpenUrl post, Sleep WAIT_AFTER_OPEN], files = fs0\<rparr>
         = (Inr (True, VInt 1, VInt 1, VFloat (9 / 10), 1), ?w3)"
    by (rule retweet_loop_feed) (simp add: device_defs retweet_TEMP_SCREENSHOT_def TEMP_SCREENSHOT_MENU_def)
  have t: "tap_r dev_ok (trace ?w3 @ [Tap (VInt 1) (VInt 1)])"
    and t': "tap_r dev_menu (trace ?w3 @ [Tap (VInt 1) (VInt 1)])"
    by (simp_all add: device_defs)
  have m: "take_screenshot_r dev_ok ?pre = Some (Some feed_img)"
    by (simp add: device_defs)
  have m': "take_screenshot_r dev_menu ?pre = Some (Some menu_img)"
    by (simp add: device_defs TEMP_SCREENSHOT_MENU_def)
  have f: "find_repost_option corr0 ((files ?w3)(TEMP_SCREENSHOT_MENU \<mapsto> Some feed_img)) TEMP_SCREENSHOT_MENU
              = Inr (not_found (6 / 10))"
    using repost_on_feed by simp
  have f': "find_repost_option corr0 ((files ?w3)(TEMP_SCREENSHOT_MENU \<mapsto> Some menu_img)) TEMP_SCREENSHOT_MENU
              = Inr (found_at (3, 2, 9 / 10) 1)"
    using repost_on_menu by simp
  have k: "not_found (6 / 10) ''success'' = Some (VBool False)
           \<and> tap_r dev_ok (?pre @ [Locate TEMP_SCREENSHOT_MENU,
                                    Tap (VInt REPOST_OPTION_X) (VInt REPOST_OPTION_Y)])"
    by (simp add: not_found_def device_defs)
  have k': "found_at (3, 2, 9 / 10) 1 ''success'' = Some (VBool True)
           \<and> found_at (3, 2, 9 / 10) 1 ''x'' = Some (VInt 3)
           \<and> found_at (3, 2, 9 / 10) 1 ''y'' = Some (VInt 2)
           \<and> tap_r dev_menu (?pre @ [Locate TEMP_SCREENSHOT_MENU, Tap (VInt 3) (VInt 2)])"
    by (simp add: found_at_def match_x_def match_y_def device_defs)
  note c = C2_fallback_reports_button [OF o l t m f]
  note c' = C2_fallback_reports_button [OF o' l' t' m' f']
  have e: "trace ?w3 @ [Tap (VInt 1) (VInt 1), Sleep WAIT_AFTER_RETWEET_BUTTON,
                       TakeScreenshot TEMP_SCREENSHOT_MENU, Locate TEMP_SCREENSHOT_MENU,
                       Tap (VInt REPOST_OPTION_X) (VInt REPOST_OPTION_Y), Sleep 1,
                       TakeScreenshot retweet_TEMP_SCREENSHOT_AFTER]
           = [OpenUrl post, Sleep 10, TakeScreenshot ''/tmp/screenshot_retweet.png'',
              Locate ''/tmp/screenshot_retweet.png'', Tap (VInt 1) (VInt 1), Sleep 2,
              TakeScreenshot ''/tmp/screenshot_retweet_menu.png'',
              Locate ''/tmp/screenshot_retweet_menu.png'', Tap (VInt 230) (VInt 1440), Sleep 1,
              TakeScreenshot ''/tmp/screenshot_retweet_after.png'']"
    by (simp add: const_defs)
  have e': "trace ?w3 @ [Tap (VInt 1) (VInt 1), Sleep WAIT_AFTER_RETWEET_BUTTON,
                       TakeScreenshot TEMP_SCREENSHOT_MENU, Locate TEMP_SCREENSHOT_MENU,
                       Tap (VInt 3) (VInt 2), Sleep 1,
                       TakeScreenshot retweet_TEMP_SCREENSHOT_AFTER]
           = [OpenUrl post, Sleep 10, TakeScreenshot ''/tmp/screenshot_retweet.png'',
              Locate ''/tmp/screenshot_retweet.png'', Tap (VInt 1) (VInt 1), Sleep 2,
              TakeScreenshot ''/tmp/screenshot_retweet_menu.png'',
              Locate ''/tmp/screenshot_retweet_menu.png'', Tap (VInt 3) (VInt 2), Sleep 1,
              TakeScreenshot ''/tmp/screenshot_retweet_after.png'']"
    by (simp add: const_defs)
  have k1: "not_found (6 / 10) ''success'' = Some (VBool False)
          \<and> tap_r dev_ok (trace ?w3 @ [Tap (VInt 1) (VInt 1), Sleep WAIT_AFTER_RETWEET_BUTTON,
                                    TakeScreenshot TEMP_SCREENSHOT_MENU, Locate TEMP_SCREENSHOT_MENU,
                                    Tap (VInt REPOST_OPTION_X) (VInt REPOST_OPTION_Y)])"
    using k by simp
  have k2: "found_at (3, 2, 9 / 10) 1 ''success'' = Some (VBool True)
          \<and> found_at (3, 2, 9 / 10) 1 ''x'' = Some (VInt 3)
          \<and> found_at (3, 2, 9 / 10) 1 ''y'' = Some (VInt 2)
          \<and> tap_r dev_menu (trace ?w3 @ [Tap (VInt 1) (VInt 1), Sleep WAIT_AFTER_RETWEET_BUTTON,
                                    TakeScreenshot TEMP_SCREENSHOT_MENU, Locate TEMP_SCREENSHOT_MENU,
                                    Tap (VInt 3) (VInt 2)])"
    using k' by simp
  note fb = c [THEN conjunct1, rule_format, OF k1]
  note lc = c' [THEN conjunct2, THEN conjunct1, rule_format, OF k2]
  have 1: "fst (execute_retweet corr0 dev_ok fs0 post) =
     Inr [''success'' \<mapsto> VBool True, ''x'' \<mapsto> VInt 1, ''y'' \<mapsto> VInt 1,
          ''confidence'' \<mapsto> VFloat (9 / 10), ''retry_count'' \<mapsto> VInt 1]"
    using fb [THEN conjunct1] by simp
  have 2: "trace (snd (execute_retweet corr0 dev_ok fs0 post)) =
             [OpenUrl post, Sleep 10, TakeScreenshot ''/tmp/screenshot_retweet.png'',
              Locate ''/tmp/screenshot_retweet.png'', Tap (VInt 1) (VInt 1), Sleep 2,
              TakeScreenshot ''/tmp/screenshot_retweet_menu.png'',
              Locate ''/tmp/screenshot_retweet_menu.png'', Tap (VInt 230) (VInt 1440), Sleep 1,
              TakeScreenshot ''/tmp/screenshot_retweet_after.png'']"
    using fb [THEN conjunct2] by (simp only: e)
  have 3: "fst (execute_retweet corr0 dev_menu fs0 post) =
     Inr [''success'' \<mapsto> VBool True, ''x'' \<mapsto> VInt 1, ''y'' \<mapsto> VInt 1,
          ''confidence'' \<mapsto> VFloat (9 / 10), ''retry_count'' \<mapsto> VInt 1]"
    using lc [THEN conjunct1] by simp
  have 4: "trace (snd (execute_retweet corr0 dev_menu fs0 post)) =
             [OpenUrl post, Sleep 10, TakeScreenshot ''/tmp/screenshot_retweet.png'',
              Locate ''/tmp/screenshot_retweet.png'', Tap (VInt 1) (VInt 1), Sleep 2,
              TakeScreenshot ''/tmp/screenshot_retweet_menu.png'',
              Locate ''/tmp/screenshot_retweet_menu.png'', Tap (VInt 3) (VInt 2), Sleep 1,
              TakeScreenshot ''/tmp/screenshot_retweet_after.png'']"
    using lc [THEN conjunct2] by (simp only: e')
  from c [THEN conjunct2, THEN conjunct2] have 5: "float32_THRESHOLD \<le> (9 / 10 :: real)"
    by auto
  from 1 2 3 4 5 show ?thesis by (intro conjI)
qed

subsection \<open>The follow action\<close>

text \<open>
  A follow run on a device where every call succeeds: the tap at (990, 900) comes
  right after the settle delay, with no capture and no localization before it.
\<close>

theorem C1_follow_shape_counterexample:
  "fst (execute_follow dev_ok fs0 ''@alice'') =
     Inr [''success'' \<mapsto> VBool True, ''x'' \<mapsto> VInt 990, ''y'' \<mapsto> VInt 900,
          ''confidence'' \<mapsto> VInt 0, ''retry_count'' \<mapsto> VInt 1,
          ''target_username'' \<mapsto> VStr ''alice'']
   \<and> trace (snd (execute_follow dev_ok fs0 ''@alice'')) =
       [OpenUrl ''https://x.com/alice'', Sleep 8, Tap (VInt 990) (VInt 900), Sleep 1,
        TakeScreenshot ''/tmp/screenshot_follow_after.png'']"
  by (simp add: execute_follow_def client_defs const_defs lstrip_at_def Let_def dev_ok_def
        trace_cleanup del: cleanup.simps)

text \<open>
  Claim C1, amended. The follow action does not run the capture-and-locate retry loop.
  Once the profile URL is open it waits 8 s and taps the fixed coordinate (990, 900);
  the only events that can follow are the 1 s delay and the confirmation screenshot.
  It reports these coordinates with confidence 0 and retry count 1.
\<close>

theorem C1_follow_fixed_tap:
  assumes "open_url_r dev [OpenUrl (''https://x.com/'' @ lstrip_at target_username)]"
  shows "(\<exists>rest. trace (snd (execute_follow dev fs target_username)) =
                  [OpenUrl (''https://x.com/'' @ lstrip_at target_username),
                   Sleep follow_WAIT_AFTER_OPEN,
                   Tap (VInt FOLLOW_BUTTON_X) (VInt FOLLOW_BUTTON_Y)] @ rest
                \<and> (rest = [] \<or> rest = [Sleep 1, TakeScreenshot follow_TEMP_SCREENSHOT_AFTER]))
       \<and> (\<exists>d. fst (execute_follow dev fs target_username) = Inr d
              \<and> d ''x'' = Some (VInt FOLLOW_BUTTON_X) \<and> d ''y'' = Some (VInt FOLLOW_BUTTON_Y)
              \<and> d ''confidence'' = Some (VInt 0) \<and> d ''retry_count'' = Some (VInt 1))"
proof (cases "tap_r dev [OpenUrl (''https://x.com/'' @ lstrip_at target_username),
                         Sleep follow_WAIT_AFTER_OPEN,
                         Tap (VInt FOLLOW_BUTTON_X) (VInt FOLLOW_BUTTON_Y)]")
  case True
  then show ?thesis
    using assms
    by (simp add: execute_follow_def client_defs Let_def trace_cleanup split: option.splits
          del: cleanup.simps)
next
  case False
  then show ?thesis
    using assms
    by (simp add: execute_follow_def client_defs Let_def)
qed

text \<open>The profile of \<^verbatim>\<open>@alice\<close> on the device where every call succeeds.\<close>

theorem C1_follow_fixed_tap_witness:
  "(\<exists>rest. trace (snd (execute_follow dev_ok fs0 ''@alice'')) =
            [OpenUrl ''https://x.com/alice'', Sleep 8, Tap (VInt 990) (VInt 900)] @ rest
          \<and> (rest = [] \<or> rest = [Sleep 1, TakeScreenshot ''/tmp/screenshot_follow_after.png'']))
   \<and> (\<exists>d. fst (execute_follow dev_ok fs0 ''@alice'') = Inr d
          \<and> d ''x'' = Some (VInt 990) \<and> d ''y'' = Some (VInt 900)
          \<and> d ''confidence'' = Some (VInt 0) \<and> d ''retry_count'' = Some (VInt 1))"
proof -
  have u: "''https://x.com/'' @ lstrip_at ''@alice'' = ''https://x.com/alice''"
    by (simp add: lstrip_at_def)
  have o: "open_url_r dev_ok [OpenUrl (''https://x.com/'' @ lstrip_at ''@alice'')]"
    by (simp add: dev_ok_def)
  show ?thesis
    using C1_follow_fixed_tap [OF o, of fs0]
    by (simp only: u follow_WAIT_AFTER_OPEN_def FOLLOW_BUTTON_X_def FOLLOW_BUTTON_Y_def
          follow_TEMP_SCREENSHOT_AFTER_def)
qed

subsection \<open>The retry loop in the like action\<close>

lemma like_on_blank:
  "find_like_button corr0 (fs0(like_TEMP_SCREENSHOT \<mapsto> Some blank_img)) like_TEMP_SCREENSHOT
     = Inr (not_found (6 / 10))"
  by (simp add: locator_defs fixture_defs like_TEMP_SCREENSHOT_def)

lemma like_on_feed:
  "find_like_button corr0 (fs0(like_TEMP_SCREENSHOT \<mapsto> Some feed_img)) like_TEMP_SCREENSHOT
     = Inr (found_at (1, 1, 9 / 10) 1)"
  by (simp add: locator_defs fixture_defs like_TEMP_SCREENSHOT_def)

lemma like_never_found:
  assumes opened: "open_url_r dev [OpenUrl post_url]"
      and caps: "\<And>t. \<exists>content d. take_screenshot_r dev t = Some content
                     \<and> find_like_button corr (fs(like_TEMP_SCREENSHOT \<mapsto> content)) like_TEMP_SCREENSHOT = Inr d
                     \<and> d ''success'' = Some (VBool False)"
  shows "fst (execute_like corr dev fs post_url)
           = Inr [''success'' \<mapsto> VBool False, ''error'' \<mapsto> VStr ''LIKE_BUTTON_NOT_FOUND'',
                  ''retry_count'' \<mapsto> VInt 3, ''confidence'' \<mapsto> VInt 0]
       \<and> trace (snd (execute_like corr dev fs post_url))
           = [OpenUrl post_url, Sleep WAIT_AFTER_OPEN,
              TakeScreenshot like_TEMP_SCREENSHOT, Locate like_TEMP_SCREENSHOT, ScrollDown,
              Sleep WAIT_AFTER_SCROLL,
              TakeScreenshot like_TEMP_SCREENSHOT, Locate like_TEMP_SCREENSHOT, ScrollDown,
              Sleep WAIT_AFTER_SCROLL,
              TakeScreenshot like_TEMP_SCREENSHOT, Locate like_TEMP_SCREENSHOT]"
proof -
  let ?w2 = "\<lparr>trace = [OpenUrl post_url, Sleep WAIT_AFTER_OPEN], files = fs\<rparr>"
  let ?loop = "retry_loop dev (find_like_button corr) like_TEMP_SCREENSHOT [0..<MAX_RETRY] initial_vars ?w2"
  have "\<And>t. \<exists>content d. take_screenshot_r dev t = Some content
                     \<and> find_like_button corr ((files ?w2)(like_TEMP_SCREENSHOT \<mapsto> content)) like_TEMP_SCREENSHOT = Inr d
                     \<and> d ''success'' = Some (VBool False)"
    using caps by simp
  then have l: "fst ?loop = Inr (False, VNone, VNone, VInt 0, 3)
       \<and> trace (snd ?loop)
           = trace ?w2 @ [TakeScreenshot like_TEMP_SCREENSHOT, Locate like_TEMP_SCREENSHOT, ScrollDown,
                         Sleep WAIT_AFTER_SCROLL,
                        TakeScreenshot like_TEMP_SCREENSHOT, Locate like_TEMP_SCREENSHOT, ScrollDown,
                        Sleep WAIT_AFTER_SCROLL,
                        TakeScreenshot like_TEMP_SCREENSHOT, Locate like_TEMP_SCREENSHOT]"
    by (rule retry_loop_never_found)
  obtain w3 where w3: "?loop = (Inr (False, VNone, VNone, VInt 0, 3), w3)"
    using l by (cases ?loop) auto
  then have "trace w3 = trace ?w2 @ [TakeScreenshot like_TEMP_SCREENSHOT, Locate like_TEMP_SCREENSHOT, ScrollDown,
                         Sleep WAIT_AFTER_SCROLL,
                        TakeScreenshot like_TEMP_SCREENSHOT, Locate like_TEMP_SCREENSHOT, ScrollDown,
                        Sleep WAIT_AFTER_SCROLL,
                        TakeScreenshot like_TEMP_SCREENSHOT, Locate like_TEMP_SCREENSHOT]"
    using l by simp
  then show ?thesis
    using opened w3 by (simp add: execute_like_def open_url_def sleep_def start_def Let_def)
qed

text \<open>
  A like run whose first capture fails and whose second capture shows the button: the
  second capture follows the first at once, and no scroll occurs in the whole trace.
\<close>

theorem C5_capture_failure_scrolls_counterexample:
  "fst (execute_like corr0 dev_flaky fs0 post)
     = Inr [''success'' \<mapsto> VBool True, ''x'' \<mapsto> VInt 1, ''y'' \<mapsto> VInt 1,
            ''confidence'' \<mapsto> VFloat (9 / 10), ''retry_count'' \<mapsto> VInt 2]
   \<and> trace (snd (execute_like corr0 dev_flaky fs0 post))
     = [OpenUrl post, Sleep 10, TakeScreenshot ''/tmp/screenshot.png'',
        TakeScreenshot ''/tmp/screenshot.png'', Locate ''/tmp/screenshot.png'',
        Tap (VInt 1) (VInt 1), Sleep 1, TakeScreenshot ''/tmp/screenshot_after.png'']"
proof -
  have r: "[0..<MAX_RETRY] = [0, 1, 2]"
    by (simp add: MAX_RETRY_def range_3)
  have loop: "retry_loop dev_flaky (find_like_button corr0) like_TEMP_SCREENSHOT [0..<MAX_RETRY]
                initial_vars \<lparr>trace = [OpenUrl post, Sleep WAIT_AFTER_OPEN], files = fs0\<rparr>
              = (Inr (True, VInt 1, VInt 1, VFloat (9 / 10), 2),
                 \<lparr>trace = [OpenUrl post, Sleep WAIT_AFTER_OPEN, TakeScreenshot like_TEMP_SCREENSHOT,
                           TakeScreenshot like_TEMP_SCREENSHOT, Locate like_TEMP_SCREENSHOT],
                  files = fs0(like_TEMP_SCREENSHOT \<mapsto> Some feed_img)\<rparr>)"
    unfolding r initial_vars_def using like_on_feed
    by (simp add: take_screenshot_def Let_def getitem_def found_at_def dev_flaky_def dev_ok_def
          match_x_def match_y_def match_conf_def)
  show ?thesis
    using loop
    by (simp add: execute_like_def client_defs Let_def dev_flaky_def dev_ok_def trace_cleanup
          WAIT_AFTER_OPEN_def like_TEMP_SCREENSHOT_def like_TEMP_SCREENSHOT_AFTER_def
          del: cleanup.simps)
qed

text \<open>
  Claim C5, amended. One attempt of the retry loop, when the locator does not raise,
  does one of four things. When the capture fails, it uses up the attempt (the retry count becomes \<open>i + 1\<close>) and goes on
  with the next attempt at once, with neither scroll nor delay. When the localization is
  not found and attempts remain (\<open>i < MAX_RETRY - 1\<close>), it scrolls, waits
  \<^verbatim>\<open>WAIT_AFTER_SCROLL\<close> and goes on. When the localization is not found on the last
  attempt, it goes on without scroll or delay. When the button is found, the loop ends
  without scroll or delay. When all three captures of the loop fail, the loop ends not
  found with retry count 3 after three captures and nothing else; the like action then
  returns \<^verbatim>\<open>LIKE_BUTTON_NOT_FOUND\<close> with retry count 3.
\<close>

theorem C5_capture_failure_no_scroll:
  "(take_screenshot_r dev (trace w @ [TakeScreenshot path]) = None \<longrightarrow>
      retry_loop dev finder path (i # rest) (found, px, py, confidence, retry_count) w
        = retry_loop dev finder path rest (found, px, py, confidence, int i + 1)
            (w\<lparr>trace := trace w @ [TakeScreenshot path]\<rparr>))
   \<and> (\<forall>content d.
         take_screenshot_r dev (trace w @ [TakeScreenshot path]) = Some content
         \<and> finder ((files w)(path \<mapsto> content)) path = Inr d
         \<and> d ''success'' = Some (VBool False) \<and> i < MAX_RETRY - 1 \<longrightarrow>
      retry_loop dev finder path (i # rest) (found, px, py, confidence, retry_count) w
        = retry_loop dev finder path rest (found, px, py, confidence, int i + 1)
            (w\<lparr>files := (files w)(path \<mapsto> content),
               trace := trace w @ [TakeScreenshot path, Locate path, ScrollDown,
                                   Sleep WAIT_AFTER_SCROLL]\<rparr>))
   \<and> (\<forall>content d.
         take_screenshot_r dev (trace w @ [TakeScreenshot path]) = Some content
         \<and> finder ((files w)(path \<mapsto> content)) path = Inr d
         \<and> d ''success'' = Some (VBool False) \<and> \<not> i < MAX_RETRY - 1 \<longrightarrow>
      retry_loop dev finder path (i # rest) (found, px, py, confidence, retry_count) w
        = retry_loop dev finder path rest (found, px, py, confidence, int i + 1)
            (w\<lparr>files := (files w)(path \<mapsto> content),
               trace := trace w @ [TakeScreenshot path, Locate path]\<rparr>))
   \<and> (\<forall>content d rx ry rc.
         take_screenshot_r dev (trace w @ [TakeScreenshot path]) = Some content
         \<and> finder ((files w)(path \<mapsto> content)) path = Inr d
         \<and> d ''success'' = Some (VBool True)
         \<and> d ''x'' = Some rx \<and> d ''y'' = Some ry \<and> d ''confidence'' = Some rc \<longrightarrow>
      retry_loop dev finder path (i # rest) (found, px, py, confidence, retry_count) w
        = (Inr (True, rx, ry, rc, int i + 1),
           w\<lparr>files := (files w)(path \<mapsto> content),
              trace := trace w @ [TakeScreenshot path, Locate path]\<rparr>))
   \<and> (take_screenshot_r dev (trace w @ [TakeScreenshot path]) = None
       \<and> take_screenshot_r dev (trace w @ [TakeScreenshot path, TakeScreenshot path]) = None
       \<and> take_screenshot_r dev (trace w @ [TakeScreenshot path, TakeScreenshot path,
                                            TakeScreenshot path]) = None \<longrightarrow>
      retry_loop dev finder path [0..<MAX_RETRY] initial_vars w
        = (Inr (False, VNone, VNone, VInt 0, 3),
           w\<lparr>trace := trace w @ [TakeScreenshot path, TakeScreenshot path,
                                  TakeScreenshot path]\<rparr>))
   \<and> (open_url_r dev [OpenUrl post_url] \<and> (\<forall>t. take_screenshot_r dev t = None) \<longrightarrow>
      execute_like corr dev fs post_url
        = (Inr [''success'' \<mapsto> VBool False, ''error'' \<mapsto> VStr ''LIKE_BUTTON_NOT_FOUND'',
                ''retry_count'' \<mapsto> VInt 3, ''confidence'' \<mapsto> VInt 0],
           \<lparr>trace = [OpenUrl post_url, Sleep WAIT_AFTER_OPEN, TakeScreenshot like_TEMP_SCREENSHOT,
                     TakeScreenshot like_TEMP_SCREENSHOT, TakeScreenshot like_TEMP_SCREENSHOT],
            files = fs\<rparr>))"
proof (intro conjI allI impI)
  assume "take_screenshot_r dev (trace w @ [TakeScreenshot path]) = None"
  then show "retry_loop dev finder path (i # rest) (found, px, py, confidence, retry_count) w
        = retry_loop dev finder path rest (found, px, py, confidence, int i + 1)
            (w\<lparr>trace := trace w @ [TakeScreenshot path]\<rparr>)"
    by (simp add: take_screenshot_def Let_def)
next
  fix content d
  assume "take_screenshot_r dev (trace w @ [TakeScreenshot path]) = Some content
         \<and> finder ((files w)(path \<mapsto> content)) path = Inr d
         \<and> d ''success'' = Some (VBool False) \<and> i < MAX_RETRY - 1"
  then show "retry_loop dev finder path (i # rest) (found, px, py, confidence, retry_count) w
        = retry_loop dev finder path rest (found, px, py, confidence, int i + 1)
            (w\<lparr>files := (files w)(path \<mapsto> content),
               trace := trace w @ [TakeScreenshot path, Locate path, ScrollDown,
                                   Sleep WAIT_AFTER_SCROLL]\<rparr>)"
    by (simp add: take_screenshot_def scroll_down_def sleep_def Let_def getitem_def)
next
  fix content d
  assume "take_screenshot_r dev (trace w @ [TakeScreenshot path]) = Some content
         \<and> finder ((files w)(path \<mapsto> content)) path = Inr d
         \<and> d ''success'' = Some (VBool False) \<and> \<not> i < MAX_RETRY - 1"
  then show "retry_loop dev finder path (i # rest) (found, px, py, confidence, retry_count) w
        = retry_loop dev finder path rest (found, px, py, confidence, int i + 1)
            (w\<lparr>files := (files w)(path \<mapsto> content),
               trace := trace w @ [TakeScreenshot path, Locate path]\<rparr>)"
    by (simp add: take_screenshot_def Let_def getitem_def)
next
  fix content d rx ry rc
  assume "take_screenshot_r dev (trace w @ [TakeScreenshot path]) = Some content
         \<and> finder ((files w)(path \<mapsto> content)) path = Inr d
         \<and> d ''success'' = Some (VBool True)
         \<and> d ''x'' = Some rx \<and> d ''y'' = Some ry \<and> d ''confidence'' = Some rc"
  then show "retry_loop dev finder path (i # rest) (found, px, py, confidence, retry_count) w
        = (Inr (True, rx, ry, rc, int i + 1),
           w\<lparr>files := (files w)(path \<mapsto> content),
              trace := trace w @ [TakeScreenshot path, Locate path]\<rparr>)"
    by (simp add: take_screenshot_def Let_def getitem_def)
next
  assume a: "take_screenshot_r dev (trace w @ [TakeScreenshot path]) = None
       \<and> take_screenshot_r dev (trace w @ [TakeScreenshot path, TakeScreenshot path]) = None
       \<and> take_screenshot_r dev (trace w @ [TakeScreenshot path, TakeScreenshot path,
                                            TakeScreenshot path]) = None"
  have r: "[0..<MAX_RETRY] = [0, 1, 2]"
    by (simp add: MAX_RETRY_def range_3)
  show "retry_loop dev finder path [0..<MAX_RETRY] initial_vars w
        = (Inr (False, VNone, VNone, VInt 0, 3),
           w\<lparr>trace := trace w @ [TakeScreenshot path, TakeScreenshot path,
                                  TakeScreenshot path]\<rparr>)"
    using a unfolding r initial_vars_def
    by (simp add: take_screenshot_def Let_def)
next
  assume a: "open_url_r dev [OpenUrl post_url] \<and> (\<forall>t. take_screenshot_r dev t = None)"
  have r: "[0..<MAX_RETRY] = [0, 1, 2]"
    by (simp add: MAX_RETRY_def range_3)
  show "execute_like corr dev fs post_url
        = (Inr [''success'' \<mapsto> VBool False, ''error'' \<mapsto> VStr ''LIKE_BUTTON_NOT_FOUND'',
                ''retry_count'' \<mapsto> VInt 3, ''confidence'' \<mapsto> VInt 0],
           \<lparr>trace = [OpenUrl post_url, Sleep WAIT_AFTER_OPEN, TakeScreenshot like_TEMP_SCREENSHOT,
                     TakeScreenshot like_TEMP_SCREENSHOT, TakeScreenshot like_TEMP_SCREENSHOT],
            files = fs\<rparr>)"
    using a unfolding execute_like_def r initial_vars_def
    by (simp add: client_defs Let_def)
qed

text \<open>
  The first attempt on a device whose first capture fails and on a device whose captures
  are blank; the last attempt on the device whose captures are blank; the first attempt
  on a device whose capture shows the button; the whole loop and the whole like action
  on a device that cannot capture.
\<close>

theorem C5_capture_failure_no_scroll_witness:
  "retry_loop dev_flaky (find_like_button corr0) like_TEMP_SCREENSHOT [0, 1, 2]
       (False, VNone, VNone, VInt 0, 0) \<lparr>trace = [OpenUrl post, Sleep 10], files = fs0\<rparr>
     = retry_loop dev_flaky (find_like_button corr0) like_TEMP_SCREENSHOT [1, 2]
         (False, VNone, VNone, VInt 0, 1)
         \<lparr>trace = [OpenUrl post, Sleep 10, TakeScreenshot like_TEMP_SCREENSHOT], files = fs0\<rparr>
   \<and> retry_loop dev_blank (find_like_button corr0) like_TEMP_SCREENSHOT [0, 1, 2]
       (False, VNone, VNone, VInt 0, 0) \<lparr>trace = [OpenUrl post, Sleep 10], files = fs0\<rparr>
     = retry_loop dev_blank (find_like_button corr0) like_TEMP_SCREENSHOT [1, 2]
         (False, VNone, VNone, VInt 0, 1)
         \<lparr>trace = [OpenUrl post, Sleep 10, TakeScreenshot like_TEMP_SCREENSHOT,
                   Locate like_TEMP_SCREENSHOT, ScrollDown, Sleep 2],
          files = fs0(like_TEMP_SCREENSHOT \<mapsto> Some blank_img)\<rparr>
   \<and> retry_loop dev_blank (find_like_button corr0) like_TEMP_SCREENSHOT [2]
       (False, VNone, VNone, VInt 0, 2) \<lparr>trace = [OpenUrl post, Sleep 10], files = fs0\<rparr>
     = (Inr (False, VNone, VNone, VInt 0, 3),
        \<lparr>trace = [OpenUrl post, Sleep 10, TakeScreenshot like_TEMP_SCREENSHOT,
                  Locate like_TEMP_SCREENSHOT],
         files = fs0(like_TEMP_SCREENSHOT \<mapsto> Some blank_img)\<rparr>)
   \<and> retry_loop dev_ok (find_like_button corr0) like_TEMP_SCREENSHOT [0, 1, 2]
       (False, VNone, VNone, VInt 0, 0) \<lparr>trace = [OpenUrl post, Sleep 10], files = fs0\<rparr>
     = (Inr (True, VInt 1, VInt 1, VFloat (9 / 10), 1),
        \<lparr>trace = [OpenUrl post, Sleep 10, TakeScreenshot like_TEMP_SCREENSHOT,
                  Locate like_TEMP_SCREENSHOT],
         files = fs0(like_TEMP_SCREENSHOT \<mapsto> Some feed_img)\<rparr>)
   \<and> retry_loop dev_dark (find_like_button corr0) like_TEMP_SCREENSHOT [0..<MAX_RETRY]
       initial_vars \<lparr>trace = [OpenUrl post, Sleep 10], files = fs0\<rparr>
     = (Inr (False, VNone, VNone, VInt 0, 3),
        \<lparr>trace = [OpenUrl post, Sleep 10, TakeScreenshot like_TEMP_SCREENSHOT,
                  TakeScreenshot like_TEMP_SCREENSHOT, TakeScreenshot like_TEMP_SCREENSHOT],
         files = fs0\<rparr>)
   \<and> execute_like corr0 dev_dark fs0 post
     = (Inr [''success'' \<mapsto> VBool False, ''error'' \<mapsto> VStr ''LIKE_BUTTON_NOT_FOUND'',
             ''retry_count'' \<mapsto> VInt 3, ''confidence'' \<mapsto> VInt 0],
        \<lparr>trace = [OpenUrl post, Sleep 10, TakeScreenshot like_TEMP_SCREENSHOT,
                  TakeScreenshot like_TEMP_SCREENSHOT, TakeScreenshot like_TEMP_SCREENSHOT],
         files = fs0\<rparr>)"
proof (intro conjI)
  let ?w = "\<lparr>trace = [OpenUrl post, Sleep 10], files = fs0\<rparr>"
  let ?p = like_TEMP_SCREENSHOT
  have a: "take_screenshot_r dev_flaky (trace ?w @ [TakeScreenshot ?p]) = None"
    by (simp add: device_defs)
  have b: "take_screenshot_r dev_blank (trace ?w @ [TakeScreenshot ?p]) = Some (Some blank_img)
         \<and> find_like_button corr0 ((files ?w)(?p \<mapsto> Some blank_img)) ?p = Inr (not_found (6 / 10))
         \<and> not_found (6 / 10) ''success'' = Some (VBool False) \<and> (0::nat) < MAX_RETRY - 1"
    using like_on_blank by (simp add: device_defs not_found_def MAX_RETRY_def)
  have b': "take_screenshot_r dev_blank (trace ?w @ [TakeScreenshot ?p]) = Some (Some blank_img)
         \<and> find_like_button corr0 ((files ?w)(?p \<mapsto> Some blank_img)) ?p = Inr (not_found (6 / 10))
         \<and> not_found (6 / 10) ''success'' = Some (VBool False) \<and> \<not> (2::nat) < MAX_RETRY - 1"
    using like_on_blank by (simp add: device_defs not_found_def MAX_RETRY_def)
  have g: "take_screenshot_r dev_ok (trace ?w @ [TakeScreenshot ?p]) = Some (Some feed_img)
         \<and> find_like_button corr0 ((files ?w)(?p \<mapsto> Some feed_img)) ?p = Inr (found_at (1, 1, 9 / 10) 1)
         \<and> found_at (1, 1, 9 / 10) 1 ''success'' = Some (VBool True)
         \<and> found_at (1, 1, 9 / 10) 1 ''x'' = Some (VInt 1)
         \<and> found_at (1, 1, 9 / 10) 1 ''y'' = Some (VInt 1)
         \<and> found_at (1, 1, 9 / 10) 1 ''confidence'' = Some (VFloat (9 / 10))"
    using like_on_feed
    by (simp add: device_defs found_at_def match_x_def match_y_def match_conf_def)
  have dk: "take_screenshot_r dev_dark (trace ?w @ [TakeScreenshot ?p]) = None
       \<and> take_screenshot_r dev_dark (trace ?w @ [TakeScreenshot ?p, TakeScreenshot ?p]) = None
       \<and> take_screenshot_r dev_dark (trace ?w @ [TakeScreenshot ?p, TakeScreenshot ?p,
                                                 TakeScreenshot ?p]) = None"
    by (simp add: dev_dark_def dev_ok_def)
  have c: "open_url_r dev_dark [OpenUrl post] \<and> (\<forall>t. take_screenshot_r dev_dark t = None)"
    by (simp add: dev_dark_def dev_ok_def)
  note t1 = C5_capture_failure_no_scroll [where dev = dev_flaky and w = ?w and path = ?p
      and finder = "find_like_button corr0" and i = 0 and rest = "[1, 2]" and found = False
      and px = VNone and py = VNone and confidence = "VInt 0" and retry_count = 0, THEN conjunct1]
  note t2 = C5_capture_failure_no_scroll [where dev = dev_blank and w = ?w and path = ?p
      and finder = "find_like_button corr0" and i = 0 and rest = "[1, 2]" and found = False
      and px = VNone and py = VNone and confidence = "VInt 0" and retry_count = 0,
      THEN conjunct2, THEN conjunct1, rule_format, OF b]
  note t3 = C5_capture_failure_no_scroll [where dev = dev_blank and w = ?w and path = ?p
      and finder = "find_like_button corr0" and i = 2 and rest = "[]" and found = False
      and px = VNone and py = VNone and confidence = "VInt 0" and retry_count = 2,
      THEN conjunct2, THEN conjunct2, THEN conjunct1, rule_format, OF b']
  note t4 = C5_capture_failure_no_scroll [where dev = dev_ok and w = ?w and path = ?p
      and finder = "find_like_button corr0" and i = 0 and rest = "[1, 2]" and found = False
      and px = VNone and py = VNone and confidence = "VInt 0" and retry_count = 0,
      THEN conjunct2, THEN conjunct2, THEN conjunct2, THEN conjunct1, rule_format, OF g]
  note t5 = C5_capture_failure_no_scroll [where dev = dev_dark and w = ?w and path = ?p
      and finder = "find_like_button corr0",
      THEN conjunct2, THEN conjunct2, THEN conjunct2, THEN conjunct2, THEN conjunct1,
      rule_format, OF dk]
  note t6 = C5_capture_failure_no_scroll [where dev = dev_dark and post_url = post and corr = corr0
      and fs = fs0, THEN conjunct2, THEN conjunct2, THEN conjunct2, THEN conjunct2, THEN conjunct2,
      rule_format, OF c]
  from t1 a show "retry_loop dev_flaky (find_like_button corr0) ?p [0, 1, 2]
       (False, VNone, VNone, VInt 0, 0) ?w
     = retry_loop dev_flaky (find_like_button corr0) ?p [1, 2]
         (False, VNone, VNone, VInt 0, 1)
         \<lparr>trace = [OpenUrl post, Sleep 10, TakeScreenshot ?p], files = fs0\<rparr>"
    by simp
  from t2 show "retry_loop dev_blank (find_like_button corr0) ?p [0, 1, 2]
       (False, VNone, VNone, VInt 0, 0) ?w
     = retry_loop dev_blank (find_like_button corr0) ?p [1, 2]
         (False, VNone, VNone, VInt 0, 1)
         \<lparr>trace = [OpenUrl post, Sleep 10, TakeScreenshot ?p,
                   Locate ?p, ScrollDown, Sleep 2],
          files = fs0(?p \<mapsto> Some blank_img)\<rparr>"
    by (simp add: WAIT_AFTER_SCROLL_def)
  from t3 show "retry_loop dev_blank (find_like_button corr0) ?p [2]
       (False, VNone, VNone, VInt 0, 2) ?w
     = (Inr (False, VNone, VNone, VInt 0, 3),
        \<lparr>trace = [OpenUrl post, Sleep 10, TakeScreenshot ?p, Locate ?p],
         files = fs0(?p \<mapsto> Some blank_img)\<rparr>)"
    by simp
  from t4 show "retry_loop dev_ok (find_like_button corr0) ?p [0, 1, 2]
       (False, VNone, VNone, VInt 0, 0) ?w
     = (Inr (True, VInt 1, VInt 1, VFloat (9 / 10), 1),
        \<lparr>trace = [OpenUrl post, Sleep 10, TakeScreenshot ?p, Locate ?p],
         files = fs0(?p \<mapsto> Some feed_img)\<rparr>)"
    by simp
  from t5 show "retry_loop dev_dark (find_like_button corr0) ?p [0..<MAX_RETRY]
       initial_vars ?w
     = (Inr (False, VNone, VNone, VInt 0, 3),
        \<lparr>trace = [OpenUrl post, Sleep 10, TakeScreenshot ?p,
                  TakeScreenshot ?p, TakeScreenshot ?p],
         files = fs0\<rparr>)"
    by simp
  from t6 show "execute_like corr0 dev_dark fs0 post
     = (Inr [''success'' \<mapsto> VBool False, ''error'' \<mapsto> VStr ''LIKE_BUTTON_NOT_FOUND'',
             ''retry_count'' \<mapsto> VInt 3, ''confidence'' \<mapsto> VInt 0],
        \<lparr>trace = [OpenUrl post, Sleep 10, TakeScreenshot ?p,
                  TakeScreenshot ?p, TakeScreenshot ?p],
         files = fs0\<rparr>)"
    by (simp add: WAIT_AFTER_OPEN_def)
qed

text \<open>
  Claim C6. On a device whose three captures are blank the locator reports
  \<^verbatim>\<open>NOT_FOUND\<close> with confidence 0.6 each time. The like action makes three
  localization attempts and two scrolls and ends with \<^verbatim>\<open>LIKE_BUTTON_NOT_FOUND\<close> and
  retry count 3; the confidence it reports is the initial 0 and not the 0.6 that was
  observed.
\<close>

theorem C6_not_found_confidence:
  "fst (execute_like corr0 dev_blank fs0 post)
     = Inr [''success'' \<mapsto> VBool False, ''error'' \<mapsto> VStr ''LIKE_BUTTON_NOT_FOUND'',
            ''retry_count'' \<mapsto> VInt 3, ''confidence'' \<mapsto> VInt 0]
   \<and> trace (snd (execute_like corr0 dev_blank fs0 post))
     = [OpenUrl post, Sleep 10,
        TakeScreenshot ''/tmp/screenshot.png'', Locate ''/tmp/screenshot.png'', ScrollDown, Sleep 2,
        TakeScreenshot ''/tmp/screenshot.png'', Locate ''/tmp/screenshot.png'', ScrollDown, Sleep 2,
        TakeScreenshot ''/tmp/screenshot.png'', Locate ''/tmp/screenshot.png'']
   \<and> find_like_button corr0 (fs0(''/tmp/screenshot.png'' \<mapsto> Some blank_img)) ''/tmp/screenshot.png''
     = Inr [''success'' \<mapsto> VBool False, ''error'' \<mapsto> VStr ''NOT_FOUND'', ''x'' \<mapsto> VNone,
            ''y'' \<mapsto> VNone, ''confidence'' \<mapsto> VFloat (6 / 10), ''count'' \<mapsto> VInt 0]"
proof -
  have o: "open_url_r dev_blank [OpenUrl post]"
    by (simp add: device_defs)
  have k: "not_found (6 / 10) ''success'' = Some (VBool False)"
    by (simp add: not_found_def)
  have caps: "\<And>t. \<exists>content d. take_screenshot_r dev_blank t = Some content
                     \<and> find_like_button corr0 (fs0(like_TEMP_SCREENSHOT \<mapsto> content)) like_TEMP_SCREENSHOT = Inr d
                     \<and> d ''success'' = Some (VBool False)"
    using like_on_blank k by (simp add: device_defs)
  have run: "fst (execute_like corr0 dev_blank fs0 post)
           = Inr [''success'' \<mapsto> VBool False, ''error'' \<mapsto> VStr ''LIKE_BUTTON_NOT_FOUND'',
                  ''retry_count'' \<mapsto> VInt 3, ''confidence'' \<mapsto> VInt 0]
       \<and> trace (snd (execute_like corr0 dev_blank fs0 post))
           = [OpenUrl post, Sleep WAIT_AFTER_OPEN,
              TakeScreenshot like_TEMP_SCREENSHOT, Locate like_TEMP_SCREENSHOT, ScrollDown,
              Sleep WAIT_AFTER_SCROLL,
              TakeScreenshot like_TEMP_SCREENSHOT, Locate like_TEMP_SCREENSHOT, ScrollDown,
              Sleep WAIT_AFTER_SCROLL,
              TakeScreenshot like_TEMP_SCREENSHOT, Locate like_TEMP_SCREENSHOT]"
    using o caps by (rule like_never_found)
  show ?thesis
    using run like_on_blank
    by (simp add: WAIT_AFTER_OPEN_def WAIT_AFTER_SCROLL_def like_TEMP_SCREENSHOT_def not_found_def)
qed

subsection \<open>Which failure outcomes carry the retry count\<close>

lemma like_retry_count:
  assumes "fst (execute_like corr dev fs post_url) = Inr d"
      and "d ''success'' = Some (VBool False)"
  shows "(d ''retry_count'' = None) = (d ''error'' = Some (VStr ''FAILED_TO_OPEN_URL''))"
  using assms
  by (auto simp: execute_like_def client_defs Let_def
           split: if_splits prod.splits sum.splits option.splits simp del: cleanup.simps)

lemma retweet_retry_count:
  assumes "fst (execute_retweet corr dev fs post_url) = Inr d"
      and "d ''success'' = Some (VBool False)"
  shows "(d ''retry_count'' = None) = (d ''error'' = Some (VStr ''FAILED_TO_OPEN_URL''))"
  using assms
  by (auto simp: execute_retweet_def client_defs Let_def
           split: if_splits prod.splits sum.splits option.splits simp del: cleanup.simps)

lemma follow_retry_count:
  assumes "fst (execute_follow dev fs target_username) = Inr d"
      and "d ''success'' = Some (VBool False)"
  shows "(d ''retry_count'' = None) = (d ''error'' = Some (VStr ''FAILED_TO_OPEN_URL''))"
  using assms
  by (auto simp: execute_follow_def client_defs Let_def
           split: if_splits prod.splits sum.splits option.splits simp del: cleanup.simps)

lemma comment_retry_count:
  assumes "fst (execute_ai_comment corr dev vision fs post_url persona) = Inr d"
  shows "(d ''error'' = Some (VStr ''COMMENT_BUTTON_NOT_FOUND'') \<longrightarrow> d ''retry_count'' \<noteq> None)
       \<and> (d ''error'' = Some (VStr ''FAILED_TO_OPEN_URL'') \<or> d ''error'' = Some (VStr ''SCREENSHOT_FAILED'')
            \<or> d ''error'' = Some (VStr ''COMMENT_GENERATION_FAILED'') \<longrightarrow> d ''retry_count'' = None)"
  using assms
  by (auto simp: execute_ai_comment_def client_defs Let_def
           split: if_splits prod.splits sum.splits option.splits simp del: cleanup.simps)

text \<open>A like run on a device that refuses the URL: the outcome has two keys only.\<close>

theorem C3_retry_count_always_reported_counterexample:
  "execute_like corr0 dev_closed fs0 post =
     (Inr [''success'' \<mapsto> VBool False, ''error'' \<mapsto> VStr ''FAILED_TO_OPEN_URL''],
      \<lparr>trace = [OpenUrl post], files = fs0\<rparr>)
   \<and> [''success'' \<mapsto> VBool False, ''error'' \<mapsto> VStr ''FAILED_TO_OPEN_URL''] ''retry_count'' = None"
  by (simp add: execute_like_def client_defs dev_closed_def dev_ok_def)

text \<open>
  Claim C3, amended. In the like, retweet and follow actions a failure outcome carries
  \<^verbatim>\<open>retry_count\<close> exactly when its error is not \<^verbatim>\<open>FAILED_TO_OPEN_URL\<close>. In the
  comment action \<^verbatim>\<open>COMMENT_BUTTON_NOT_FOUND\<close> carries it, and the outcomes returned
  before the retry loop starts (\<^verbatim>\<open>FAILED_TO_OPEN_URL\<close>, \<^verbatim>\<open>SCREENSHOT_FAILED\<close>,
  \<^verbatim>\<open>COMMENT_GENERATION_FAILED\<close>) do not.
\<close>

theorem C3_retry_count_after_loop:
  "(fst (execute_like corr dev fs post_url) = Inr d \<and> d ''success'' = Some (VBool False) \<longrightarrow>
      (d ''retry_count'' = None) = (d ''error'' = Some (VStr ''FAILED_TO_OPEN_URL'')))
   \<and> (fst (execute_retweet corr dev fs post_url) = Inr d \<and> d ''success'' = Some (VBool False) \<longrightarrow>
      (d ''retry_count'' = None) = (d ''error'' = Some (VStr ''FAILED_TO_OPEN_URL'')))
   \<and> (fst (execute_follow dev fs target_username) = Inr d \<and> d ''success'' = Some (VBool False) \<longrightarrow>
      (d ''retry_count'' = None) = (d ''error'' = Some (VStr ''FAILED_TO_OPEN_URL'')))
   \<and> (fst (execute_ai_comment corr dev vision fs post_url persona) = Inr d \<longrightarrow>
      (d ''error'' = Some (VStr ''COMMENT_BUTTON_NOT_FOUND'') \<longrightarrow> d ''retry_count'' \<noteq> None)
      \<and> (d ''error'' = Some (VStr ''FAILED_TO_OPEN_URL'') \<or> d ''error'' = Some (VStr ''SCREENSHOT_FAILED'')
            \<or> d ''error'' = Some (VStr ''COMMENT_GENERATION_FAILED'') \<longrightarrow> d ''retry_count'' = None))"
  using like_retry_count [of corr dev fs post_url d] retweet_retry_count [of corr dev fs post_url d]
    follow_retry_count [of dev fs target_username d]
    comment_retry_count [of corr dev vision fs post_url persona d]
  by blast

text \<open>One failing run of each action.\<close>

theorem C3_retry_count_after_loop_witness:
  "(\<exists>d. fst (execute_like corr0 dev_blank fs0 post) = Inr d
        \<and> d ''error'' = Some (VStr ''LIKE_BUTTON_NOT_FOUND'') \<and> d ''retry_count'' \<noteq> None)
   \<and> (\<exists>d. fst (execute_retweet corr0 dev_closed fs0 post) = Inr d
        \<and> d ''error'' = Some (VStr ''FAILED_TO_OPEN_URL'') \<and> d ''retry_count'' = None)
   \<and> (\<exists>d. fst (execute_follow dev_no_tap fs0 ''@alice'') = Inr d
        \<and> d ''error'' = Some (VStr ''TAP_FOLLOW_BUTTON_FAILED'') \<and> d ''retry_count'' \<noteq> None)
   \<and> (\<exists>d. fst (execute_ai_comment corr0 dev_ok vision_none fs0 post ''friendly'') = Inr d
        \<and> d ''error'' = Some (VStr ''COMMENT_GENERATION_FAILED'') \<and> d ''retry_count'' = None)"
proof (intro conjI)
  let ?like = "[''success'' \<mapsto> VBool False, ''error'' \<mapsto> VStr ''LIKE_BUTTON_NOT_FOUND'',
                ''retry_count'' \<mapsto> VInt 3, ''confidence'' \<mapsto> VInt 0]"
  let ?closed = "[''success'' \<mapsto> VBool False, ''error'' \<mapsto> VStr ''FAILED_TO_OPEN_URL'']"
  let ?follow = "[''success'' \<mapsto> VBool False, ''error'' \<mapsto> VStr ''TAP_FOLLOW_BUTTON_FAILED'',
                  ''x'' \<mapsto> VInt FOLLOW_BUTTON_X, ''y'' \<mapsto> VInt FOLLOW_BUTTON_Y,
                  ''confidence'' \<mapsto> VInt 0, ''retry_count'' \<mapsto> VInt 1]"
  let ?comment = "[''success'' \<mapsto> VBool False, ''error'' \<mapsto> VStr ''COMMENT_GENERATION_FAILED'']"
  have k: "not_found (6 / 10) ''success'' = Some (VBool False)"
    by (simp add: not_found_def)
  have caps: "\<And>t. \<exists>content d. take_screenshot_r dev_blank t = Some content
                     \<and> find_like_button corr0 (fs0(like_TEMP_SCREENSHOT \<mapsto> content)) like_TEMP_SCREENSHOT = Inr d
                     \<and> d ''success'' = Some (VBool False)"
    using like_on_blank k by (simp add: dev_blank_def dev_ok_def)
  have o: "open_url_r dev_blank [OpenUrl post]"
    by (simp add: dev_blank_def dev_ok_def)
  have r1: "fst (execute_like corr0 dev_blank fs0 post) = Inr ?like"
    using like_never_found [OF o caps] by simp
  have r2: "fst (execute_retweet corr0 dev_closed fs0 post) = Inr ?closed"
    by (simp add: execute_retweet_def client_defs dev_closed_def dev_ok_def)
  have r3: "fst (execute_follow dev_no_tap fs0 ''@alice'') = Inr ?follow"
    by (simp add: execute_follow_def client_defs Let_def dev_no_tap_def dev_ok_def)
  have r4: "fst (execute_ai_comment corr0 dev_ok vision_none fs0 post ''friendly'') = Inr ?comment"
    by (simp add: execute_ai_comment_def client_defs Let_def dev_ok_def vision_none_def no_text_def)
  have s1: "?like ''success'' = Some (VBool False)" and e1: "?like ''error'' = Some (VStr ''LIKE_BUTTON_NOT_FOUND'')"
    by simp_all
  have s2: "?closed ''success'' = Some (VBool False)" and e2: "?closed ''error'' = Some (VStr ''FAILED_TO_OPEN_URL'')"
    by simp_all
  have s3: "?follow ''success'' = Some (VBool False)" and e3: "?follow ''error'' = Some (VStr ''TAP_FOLLOW_BUTTON_FAILED'')"
    by simp_all
  have e4: "?comment ''error'' = Some (VStr ''COMMENT_GENERATION_FAILED'')"
    by simp
  note t1 = C3_retry_count_after_loop [where corr = corr0 and dev = dev_blank and fs = fs0
      and post_url = post and d = ?like, THEN conjunct1, rule_format, OF conjI [OF r1 s1]]
  note t2 = C3_retry_count_after_loop [where corr = corr0 and dev = dev_closed and fs = fs0
      and post_url = post and d = ?closed, THEN conjunct2, THEN conjunct1, rule_format, OF conjI [OF r2 s2]]
  note t3 = C3_retry_count_after_loop [where dev = dev_no_tap and fs = fs0
      and target_username = "''@alice''" and d = ?follow,
      THEN conjunct2, THEN conjunct2, THEN conjunct1, rule_format, OF conjI [OF r3 s3]]
  note t4 = C3_retry_count_after_loop [where corr = corr0 and dev = dev_ok and vision = vision_none
      and fs = fs0 and post_url = post and persona = "''friendly''" and d = ?comment,
      THEN conjunct2, THEN conjunct2, THEN conjunct2, rule_format, OF r4, THEN conjunct2, rule_format,
      OF disjI2, OF disjI2, OF e4]
  have "?like ''retry_count'' \<noteq> None"
    using t1 e1 by simp
  then show "\<exists>d. fst (execute_like corr0 dev_blank fs0 post) = Inr d
        \<and> d ''error'' = Some (VStr ''LIKE_BUTTON_NOT_FOUND'') \<and> d ''retry_count'' \<noteq> None"
    using r1 e1 by blast
  have "?closed ''retry_count'' = None"
    using t2 e2 by simp
  then show "\<exists>d. fst (execute_retweet corr0 dev_closed fs0 post) = Inr d
        \<and> d ''error'' = Some (VStr ''FAILED_TO_OPEN_URL'') \<and> d ''retry_count'' = None"
    using r2 e2 by blast
  have "?follow ''retry_count'' \<noteq> None"
    using t3 e3 by simp
  then show "\<exists>d. fst (execute_follow dev_no_tap fs0 ''@alice'') = Inr d
        \<and> d ''error'' = Some (VStr ''TAP_FOLLOW_BUTTON_FAILED'') \<and> d ''retry_count'' \<noteq> None"
    using r3 e3 by blast
  show "\<exists>d. fst (execute_ai_comment corr0 dev_ok vision_none fs0 post ''friendly'') = Inr d
        \<and> d ''error'' = Some (VStr ''COMMENT_GENERATION_FAILED'') \<and> d ''retry_count'' = None"
    using r4 e4 t4 by blast
qed

end
